theory Spec2Isabelle
  imports Complex_Main "HOL-Library.Word"
begin

section \<open>GLPong: the game logic of main.cpp\<close>

text \<open>
  The program is one C++ file. Its game logic (geometry, paddles, ball, the top-level
  update and the keyboard callback) and the control flow of \<^verbatim>\<open>drawRectangles\<close> are
  embedded here, function by function, under the names of the source.

  Numbers. The source computes with \<^verbatim>\<open>float\<close>. A \<^verbatim>\<open>float\<close> is modelled as a
  \<^typ>\<open>real\<close>: comparisons, sums and products are the exact ones. Rounding, infinities,
  NaN and the sign of a zero are outside this model. Every constant of the source
  (15, 100, 200, 0.5, 7.5, 312.5, ...) is a binary fraction that a \<^verbatim>\<open>float\<close> holds
  exactly. An \<^verbatim>\<open>int\<close> constant is an \<^typ>\<open>int\<close>; the score, an \<^verbatim>\<open>int\<close> that is
  incremented, is a 32-bit word (read as a signed number by \<open>sint\<close>).
\<close>

subsection \<open>Constants (main.cpp, lines 19 to 29)\<close>

definition SCREEN_WIDTH :: int where
  "SCREEN_WIDTH = 640"

definition SCREEN_HEIGHT :: int where
  "SCREEN_HEIGHT = 480"

definition BALL_SIZE :: real where
  "BALL_SIZE = 15"

definition MAX_BALL_SPEED :: real where
  "MAX_BALL_SPEED = 200"

definition PLAYER_WIDTH :: real where
  "PLAYER_WIDTH = 15"

definition PLAYER_HEIGHT :: real where
  "PLAYER_HEIGHT = 100"

definition PLAYER_SPEED :: real where
  "PLAYER_SPEED = 200"

definition HALF_PLAYER_HEIGHT :: real where
  "HALF_PLAYER_HEIGHT = PLAYER_HEIGHT / 2"

lemmas constants =
  SCREEN_WIDTH_def SCREEN_HEIGHT_def BALL_SIZE_def MAX_BALL_SPEED_def
  PLAYER_WIDTH_def PLAYER_HEIGHT_def PLAYER_SPEED_def HALF_PLAYER_HEIGHT_def

subsection \<open>Geometry: Point and Rect (lines 108 to 171)\<close>

record Point =
  point_x :: real
  point_y :: real

record Rect =
  rect_x :: real
  rect_y :: real
  width :: real
  height :: real

text \<open>
  \<^verbatim>\<open>cornerPoints\<close> writes four points through its reference parameters; the model
  returns them in the order of the parameters: top left, top right, bottom left, bottom
  right.
\<close>

definition cornerPoints :: "Rect \<Rightarrow> Point \<times> Point \<times> Point \<times> Point" where
  "cornerPoints r =
     (\<lparr>point_x = rect_x r, point_y = rect_y r\<rparr>,
      \<lparr>point_x = rect_x r + width r, point_y = rect_y r\<rparr>,
      \<lparr>point_x = rect_x r, point_y = rect_y r + height r\<rparr>,
      \<lparr>point_x = rect_x r + width r, point_y = rect_y r + height r\<rparr>)"

definition contains :: "Rect \<Rightarrow> Point \<Rightarrow> bool" where
  "contains r point =
     (if point_x point > rect_x r \<and> point_x point < rect_x r + width r
      then (if point_y point > rect_y r \<and> point_y point < rect_y r + height r
            then True else False)
      else False)"

text \<open>\<open>intersects self other\<close> is \<^verbatim>\<open>self.intersects(other)\<close>.\<close>

definition intersects :: "Rect \<Rightarrow> Rect \<Rightarrow> bool" where
  "intersects self other =
     (case cornerPoints self of (topLeft, topRight, bottomLeft, bottomRight) \<Rightarrow>
        if contains other topLeft \<or> contains other topRight
           \<or> contains other bottomLeft \<or> contains other bottomRight
        then True
        else (case cornerPoints other of (topLeft', topRight', bottomLeft', bottomRight') \<Rightarrow>
                if contains self topLeft' \<or> contains self topRight'
                   \<or> contains self bottomLeft' \<or> contains self bottomRight'
                then True
                else False))"

text \<open>
  A point is on the boundary of a rectangle of non-negative extent when it is in the
  closed rectangle and on one of the four lines through its sides.
\<close>

definition on_boundary :: "Rect \<Rightarrow> Point \<Rightarrow> bool" where
  "on_boundary r p =
     (rect_x r \<le> point_x p \<and> point_x p \<le> rect_x r + width r
      \<and> rect_y r \<le> point_y p \<and> point_y p \<le> rect_y r + height r
      \<and> (point_x p = rect_x r \<or> point_x p = rect_x r + width r
         \<or> point_y p = rect_y r \<or> point_y p = rect_y r + height r))"

text \<open>
  Two rectangles of non-negative extent have no interior point in common (they are apart,
  or they touch along an edge or at a corner) when one ends, on some axis, where the
  other begins or before.
\<close>

definition no_overlap :: "Rect \<Rightarrow> Rect \<Rightarrow> bool" where
  "no_overlap a b =
     (rect_x a + width a \<le> rect_x b \<or> rect_x b + width b \<le> rect_x a
      \<or> rect_y a + height a \<le> rect_y b \<or> rect_y b + height b \<le> rect_y a)"

subsection \<open>Random numbers (lines 31 to 40)\<close>

text \<open>
  \<^verbatim>\<open>rand()\<close> returns an integer between 0 and \<^verbatim>\<open>RAND_MAX\<close>: a natural number
  here. The operator \<^verbatim>\<open>%\<close> of C++ truncates towards zero, so the remainder has the
  sign of the dividend; \<open>c_rem\<close> is that operator (for a divisor other than 0).
  \<open>randomInteger mn mx r\<close> is the value \<^verbatim>\<open>randomInteger(min, max)\<close> returns when
  its call of \<^verbatim>\<open>rand()\<close> returns \<open>r\<close>. Seeding on the first call changes which
  values \<^verbatim>\<open>rand()\<close> returns, nothing else.
\<close>

definition c_rem :: "int \<Rightarrow> int \<Rightarrow> int" where
  "c_rem a b = sgn a * (\<bar>a\<bar> mod \<bar>b\<bar>)"

definition randomInteger :: "int \<Rightarrow> int \<Rightarrow> nat \<Rightarrow> int" where
  "randomInteger mn mx r = (let diff = mx - mn in c_rem (int r) diff + mn)"

subsection \<open>Player (lines 272 to 329)\<close>

datatype PlayerSide = PLAYER_LEFT | PLAYER_RIGHT

record Player =
  side :: PlayerSide
  score :: "32 word"
  coords :: Rect
  verticalSpeed :: real

text \<open>
  The constructor. \<^verbatim>\<open>SCREEN_HEIGHT / 2\<close> divides two \<^verbatim>\<open>int\<close>s (both positive,
  so truncation is \<open>div\<close>); the result is converted to \<^verbatim>\<open>float\<close> for the
  subtraction.
\<close>

definition new_Player :: "PlayerSide \<Rightarrow> Player" where
  "new_Player s =
     (let c = \<lparr>rect_x = 0, rect_y = real_of_int (SCREEN_HEIGHT div 2) - PLAYER_HEIGHT / 2,
                width = PLAYER_WIDTH, height = PLAYER_HEIGHT\<rparr>
      in \<lparr>side = s, score = 0,
          coords = (case s of
                      PLAYER_LEFT \<Rightarrow> c\<lparr>rect_x := 10\<rparr>
                    | PLAYER_RIGHT \<Rightarrow> c\<lparr>rect_x := real_of_int SCREEN_WIDTH - PLAYER_WIDTH - 10\<rparr>),
          verticalSpeed = 0\<rparr>)"

definition getScore :: "Player \<Rightarrow> 32 word" where
  "getScore p = score p"

definition incrementScore :: "Player \<Rightarrow> Player" where
  "incrementScore p = p\<lparr>score := score p + 1\<rparr>"

definition setVerticalSpeed :: "real \<Rightarrow> Player \<Rightarrow> Player" where
  "setVerticalSpeed v p = p\<lparr>verticalSpeed := v\<rparr>"

definition getCoords :: "Player \<Rightarrow> Rect" where
  "getCoords p = coords p"

definition moveVertical :: "real \<Rightarrow> Player \<Rightarrow> Player" where
  "moveVertical distance p =
     (let p1 = p\<lparr>coords := (coords p)\<lparr>rect_y := rect_y (coords p) + distance\<rparr>\<rparr>;
          p2 = (if rect_y (coords p1) > real_of_int SCREEN_HEIGHT - PLAYER_HEIGHT
                then p1\<lparr>coords := (coords p1)\<lparr>rect_y := real_of_int SCREEN_HEIGHT - PLAYER_HEIGHT\<rparr>\<rparr>
                else p1);
          p3 = (if rect_y (coords p2) < 0
                then p2\<lparr>coords := (coords p2)\<lparr>rect_y := 0\<rparr>\<rparr>
                else p2)
      in p3)"

definition Player_update :: "real \<Rightarrow> Player \<Rightarrow> Player" where
  "Player_update elapsed p = moveVertical (verticalSpeed p * elapsed) p"

subsection \<open>Ball and the state of the game (lines 331 to 464, 626)\<close>

record Ball =
  ball_x :: real
  ball_y :: real
  xSpeed :: real
  ySpeed :: real

text \<open>
  The globals of the program, as one state. The ball's two pointers are set once, in
  \<^verbatim>\<open>initialize\<close>, to the globals \<^verbatim>\<open>leftPlayer\<close> and \<^verbatim>\<open>rightPlayer\<close>: the
  model reads and writes these two fields where the source goes through the pointers.
  \<open>rand_next g n\<close> is the value the \<open>n\<close>-th coming call of \<^verbatim>\<open>rand()\<close> returns;
  \<open>shouldClose\<close> is the window's close flag.
\<close>

record Game =
  ball :: Ball
  leftPlayer :: Player
  rightPlayer :: Player
  shouldUpdateTitle :: bool
  paused :: bool
  shouldClose :: bool
  rand_next :: "nat \<Rightarrow> nat"

definition rand :: "Game \<Rightarrow> nat \<times> Game" where
  "rand g = (rand_next g 0, g\<lparr>rand_next := (\<lambda>n. rand_next g (Suc n))\<rparr>)"

text \<open>The \<^verbatim>\<open>switch\<close> of \<^verbatim>\<open>Ball::reset\<close>; it has no default case.\<close>

definition reset_direction :: "int \<Rightarrow> Ball \<Rightarrow> Ball" where
  "reset_direction direction b =
     (if direction = 1 then b\<lparr>xSpeed := MAX_BALL_SPEED, ySpeed := - MAX_BALL_SPEED\<rparr>
      else if direction = 2 then b\<lparr>xSpeed := MAX_BALL_SPEED, ySpeed := 0\<rparr>
      else if direction = 3 then b\<lparr>xSpeed := MAX_BALL_SPEED, ySpeed := MAX_BALL_SPEED\<rparr>
      else if direction = 4 then b\<lparr>xSpeed := - MAX_BALL_SPEED, ySpeed := MAX_BALL_SPEED\<rparr>
      else if direction = 5 then b\<lparr>xSpeed := - MAX_BALL_SPEED, ySpeed := 0\<rparr>
      else if direction = 6 then b\<lparr>xSpeed := - MAX_BALL_SPEED, ySpeed := - MAX_BALL_SPEED\<rparr>
      else b)"

definition Ball_reset :: "Game \<Rightarrow> Game" where
  "Ball_reset g =
     (let b1 = (ball g)\<lparr>ball_x := real_of_int (SCREEN_WIDTH div 2) - BALL_SIZE / 2,
                        ball_y := real_of_int (SCREEN_HEIGHT div 2) - BALL_SIZE / 2\<rparr>;
          (r, g1) = rand g;
          direction = randomInteger 1 7 r
      in g1\<lparr>ball := reset_direction direction b1\<rparr>)"

text \<open>
  \<^verbatim>\<open>copysignf(m, s)\<close>: the magnitude of \<open>m\<close> with the sign of \<open>s\<close>. A real zero
  has no sign; it counts as the positive zero, which is the one \<^verbatim>\<open>Ball::reset\<close>
  assigns.
\<close>

definition copysignf :: "real \<Rightarrow> real \<Rightarrow> real" where
  "copysignf m s = (if s < 0 then - \<bar>m\<bar> else \<bar>m\<bar>)"

text \<open>The locals of \<^verbatim>\<open>Ball::bounce\<close>, each as a function of the ball and the paddle.\<close>

definition ballCenterY :: "Ball \<Rightarrow> real" where
  "ballCenterY b = ball_y b + BALL_SIZE / 2"

definition playerCenterY :: "Player \<Rightarrow> real" where
  "playerCenterY p = rect_y (getCoords p) + HALF_PLAYER_HEIGHT"

definition normalizedDistance :: "Ball \<Rightarrow> Player \<Rightarrow> real" where
  "normalizedDistance b p = min 1 (\<bar>playerCenterY p - ballCenterY b\<bar> / HALF_PLAYER_HEIGHT)"

definition speedScaleX :: "Ball \<Rightarrow> Player \<Rightarrow> real" where
  "speedScaleX b p = max 0.5 (1 - normalizedDistance b p)"

definition speedScaleY :: "Ball \<Rightarrow> Player \<Rightarrow> real" where
  "speedScaleY b p = max 0.5 (normalizedDistance b p)"

text \<open>
  \<^verbatim>\<open>bounce\<close> writes \<^verbatim>\<open>newXSpeed\<close> and \<^verbatim>\<open>newYSpeed\<close>; the model returns the
  pair. Both calls pass the ball's own \<^verbatim>\<open>_xSpeed\<close> and \<^verbatim>\<open>_ySpeed\<close> for them;
  \<^verbatim>\<open>_ySpeed\<close> is read before \<^verbatim>\<open>newYSpeed\<close> is written.
\<close>

definition bounce :: "Ball \<Rightarrow> Player \<Rightarrow> real \<times> real" where
  "bounce b player =
     (let newXSpeed = min MAX_BALL_SPEED (MAX_BALL_SPEED * speedScaleX b player + MAX_BALL_SPEED / 2);
          newYSpeed = copysignf (MAX_BALL_SPEED * speedScaleY b player) (ySpeed b)
      in (newXSpeed, newYSpeed))"

text \<open>\<^verbatim>\<open>Ball::update\<close>, statement by statement.\<close>

definition update_move :: "real \<Rightarrow> Game \<Rightarrow> Game" where
  "update_move elapsed g =
     g\<lparr>ball := (ball g)\<lparr>ball_x := ball_x (ball g) + xSpeed (ball g) * elapsed,
                         ball_y := ball_y (ball g) + ySpeed (ball g) * elapsed\<rparr>\<rparr>"

definition update_score_right :: "Game \<Rightarrow> Game" where
  "update_score_right g =
     (if ball_x (ball g) < 0
      then (Ball_reset (g\<lparr>rightPlayer := incrementScore (rightPlayer g)\<rparr>))\<lparr>shouldUpdateTitle := True\<rparr>
      else g)"

definition update_score_left :: "Game \<Rightarrow> Game" where
  "update_score_left g =
     (if ball_x (ball g) > real_of_int SCREEN_WIDTH - BALL_SIZE
      then (Ball_reset (g\<lparr>leftPlayer := incrementScore (leftPlayer g)\<rparr>))\<lparr>shouldUpdateTitle := True\<rparr>
      else g)"

definition update_wall :: "Game \<Rightarrow> Game" where
  "update_wall g =
     (if ball_y (ball g) < 0 \<or> ball_y (ball g) > real_of_int SCREEN_HEIGHT - BALL_SIZE
      then g\<lparr>ball := (ball g)\<lparr>ySpeed := - ySpeed (ball g)\<rparr>\<rparr>
      else g)"

definition make_ballRect :: "Game \<Rightarrow> Rect" where
  "make_ballRect g =
     \<lparr>rect_x = ball_x (ball g), rect_y = ball_y (ball g), width = BALL_SIZE, height = BALL_SIZE\<rparr>"

definition update_hit_left :: "Rect \<Rightarrow> Game \<Rightarrow> Game" where
  "update_hit_left ballRect g =
     (let leftPlayerCoords = getCoords (leftPlayer g)
      in if intersects leftPlayerCoords ballRect
         then (case bounce (ball g) (leftPlayer g) of
                 (newXSpeed, newYSpeed) \<Rightarrow> g\<lparr>ball := (ball g)\<lparr>xSpeed := newXSpeed, ySpeed := newYSpeed\<rparr>\<rparr>)
         else g)"

definition update_hit_right :: "Rect \<Rightarrow> Game \<Rightarrow> Game" where
  "update_hit_right ballRect g =
     (let rightPlayerCoords = getCoords (rightPlayer g)
      in if intersects rightPlayerCoords ballRect
         then (case bounce (ball g) (rightPlayer g) of
                 (newXSpeed, newYSpeed) \<Rightarrow>
                   g\<lparr>ball := (ball g)\<lparr>xSpeed := - newXSpeed, ySpeed := newYSpeed\<rparr>\<rparr>)
         else g)"

definition Ball_update :: "real \<Rightarrow> Game \<Rightarrow> Game" where
  "Ball_update elapsed g =
     (let g1 = update_move elapsed g;
          g2 = update_score_right g1;
          g3 = update_score_left g2;
          g4 = update_wall g3;
          ballRect = make_ballRect g4;
          g5 = update_hit_left ballRect g4;
          g6 = update_hit_right ballRect g5
      in g6)"

subsection \<open>The top-level update and the keyboard (lines 626 to 682)\<close>

definition update :: "real \<Rightarrow> Game \<Rightarrow> Game" where
  "update elapsed g =
     (if \<not> paused g
      then (let g1 = Ball_update elapsed g;
                g2 = g1\<lparr>leftPlayer := Player_update elapsed (leftPlayer g1)\<rparr>;
                g3 = g2\<lparr>rightPlayer := Player_update elapsed (rightPlayer g2)\<rparr>
            in g3)
      else g)"

text \<open>
  The key and action codes are macros of the GLFW header, which is not part of the
  repository. The callback only compares them for equality, so they are taken as
  distinct symbols; \<open>GLFW_KEY_OTHER\<close> and \<open>GLFW_REPEAT\<close> stand for the values the
  callback does not test for.
\<close>

datatype Key =
  GLFW_KEY_W | GLFW_KEY_S | GLFW_KEY_UP | GLFW_KEY_DOWN | GLFW_KEY_SPACE | GLFW_KEY_ESCAPE
  | GLFW_KEY_OTHER

datatype Action = GLFW_PRESS | GLFW_RELEASE | GLFW_REPEAT

definition PRESSED :: "Key \<Rightarrow> Action \<Rightarrow> Key \<Rightarrow> bool" where
  "PRESSED key action k = (key = k \<and> action = GLFW_PRESS)"

definition RELEASED :: "Key \<Rightarrow> Action \<Rightarrow> Key \<Rightarrow> bool" where
  "RELEASED key action k = (key = k \<and> action = GLFW_RELEASE)"

definition KeyboardCallback :: "Key \<Rightarrow> Action \<Rightarrow> Game \<Rightarrow> Game" where
  "KeyboardCallback key action g =
     (let g1 = (if PRESSED key action GLFW_KEY_W
                then g\<lparr>leftPlayer := setVerticalSpeed (- PLAYER_SPEED) (leftPlayer g)\<rparr> else g);
          g2 = (if RELEASED key action GLFW_KEY_W
                then g1\<lparr>leftPlayer := setVerticalSpeed 0 (leftPlayer g1)\<rparr> else g1);
          g3 = (if PRESSED key action GLFW_KEY_S
                then g2\<lparr>leftPlayer := setVerticalSpeed PLAYER_SPEED (leftPlayer g2)\<rparr> else g2);
          g4 = (if RELEASED key action GLFW_KEY_S
                then g3\<lparr>leftPlayer := setVerticalSpeed 0 (leftPlayer g3)\<rparr> else g3);
          g5 = (if PRESSED key action GLFW_KEY_UP
                then g4\<lparr>rightPlayer := setVerticalSpeed (- PLAYER_SPEED) (rightPlayer g4)\<rparr> else g4);
          g6 = (if RELEASED key action GLFW_KEY_UP
                then g5\<lparr>rightPlayer := setVerticalSpeed 0 (rightPlayer g5)\<rparr> else g5);
          g7 = (if PRESSED key action GLFW_KEY_DOWN
                then g6\<lparr>rightPlayer := setVerticalSpeed PLAYER_SPEED (rightPlayer g6)\<rparr> else g6);
          g8 = (if RELEASED key action GLFW_KEY_DOWN
                then g7\<lparr>rightPlayer := setVerticalSpeed 0 (rightPlayer g7)\<rparr> else g7);
          g9 = (if PRESSED key action GLFW_KEY_SPACE
                then g8\<lparr>paused := \<not> paused g8\<rparr> else g8);
          g10 = (if PRESSED key action GLFW_KEY_ESCAPE
                 then g9\<lparr>shouldClose := True\<rparr> else g9)
      in g10)"

text \<open>
  The state when \<^verbatim>\<open>main\<close> starts: the initialisers of the globals
  (\<^verbatim>\<open>shouldUpdateTitle = true\<close>, \<^verbatim>\<open>paused = true\<close>), the two \<^verbatim>\<open>Player\<close>
  constructors, and the \<^verbatim>\<open>Ball\<close> constructor, which calls \<^verbatim>\<open>reset\<close> on the
  zero-initialised static instance. \<open>rs\<close> is the sequence \<^verbatim>\<open>rand()\<close> will return.
\<close>

definition initial_Game :: "(nat \<Rightarrow> nat) \<Rightarrow> Game" where
  "initial_Game rs =
     Ball_reset
       \<lparr>ball = \<lparr>ball_x = 0, ball_y = 0, xSpeed = 0, ySpeed = 0\<rparr>,
        leftPlayer = new_Player PLAYER_LEFT,
        rightPlayer = new_Player PLAYER_RIGHT,
        shouldUpdateTitle = True,
        paused = True,
        shouldClose = False,
        rand_next = rs\<rparr>"

text \<open>
  What the main loop does to the state, one item per happening: a frame calls
  \<^verbatim>\<open>update\<close> with the elapsed time, a key event calls the callback.
\<close>

datatype Happening = Frame real | KeyEvent Key Action

fun happen :: "Happening \<Rightarrow> Game \<Rightarrow> Game" where
  "happen (Frame elapsed) g = update elapsed g"
| "happen (KeyEvent key action) g = KeyboardCallback key action g"

fun run :: "Happening list \<Rightarrow> Game \<Rightarrow> Game" where
  "run [] g = g"
| "run (h # hs) g = run hs (happen h g)"

subsection \<open>Drawing (lines 543 to 603)\<close>

record Color =
  color_r :: real
  color_g :: real
  color_b :: real

text \<open>
  \<^verbatim>\<open>verticesForRect\<close> writes 30 entries of the array, \<^verbatim>\<open>vertices[k + offset]\<close> for
  \<open>k\<close> from 0 to 29: two triangles of three vertices, each vertex a position and a
  colour. \<open>quadElements\<close> lists the 30 values in the order of \<open>k\<close>, \<open>store\<close> writes a
  list of values into consecutive entries, and the model returns the array after the
  writes. (A write past the end of the array is undefined in C++ and leaves the list as
  it is here; \<^verbatim>\<open>drawRectangles\<close> never makes one.)
\<close>

definition quadElements :: "Rect \<Rightarrow> Color \<Rightarrow> real list" where
  "quadElements rect color =
     [
      (rect_x rect / real_of_int SCREEN_WIDTH * 2) - 1,
      ((- rect_y rect / real_of_int SCREEN_HEIGHT) * 2) + 1,
      color_r color, color_g color, color_b color,
      ((rect_x rect + width rect) / real_of_int SCREEN_WIDTH * 2) - 1,
      ((- (rect_y rect + height rect) / real_of_int SCREEN_HEIGHT) * 2) + 1,
      color_r color, color_g color, color_b color,
      (rect_x rect / real_of_int SCREEN_WIDTH * 2) - 1,
      ((- (rect_y rect + height rect) / real_of_int SCREEN_HEIGHT) * 2) + 1,
      color_r color, color_g color, color_b color,
      (rect_x rect / real_of_int SCREEN_WIDTH * 2) - 1,
      ((- rect_y rect / real_of_int SCREEN_HEIGHT) * 2) + 1,
      color_r color, color_g color, color_b color,
      ((rect_x rect + width rect) / real_of_int SCREEN_WIDTH * 2) - 1,
      ((- rect_y rect / real_of_int SCREEN_HEIGHT) * 2) + 1,
      color_r color, color_g color, color_b color,
      ((rect_x rect + width rect) / real_of_int SCREEN_WIDTH * 2) - 1,
      ((- (rect_y rect + height rect) / real_of_int SCREEN_HEIGHT) * 2) + 1,
      color_r color, color_g color, color_b color]"

fun store :: "real list \<Rightarrow> nat \<Rightarrow> real list \<Rightarrow> real list" where
  "store vertices k [] = vertices"
| "store vertices k (v # vs) = store (vertices[k := v]) (Suc k) vs"

definition verticesForRect :: "Rect \<Rightarrow> real list \<Rightarrow> Color \<Rightarrow> nat \<Rightarrow> real list" where
  "verticesForRect rect vertices color offset = store vertices (0 + offset) (quadElements rect color)"

definition NUM_QUAD_ELEMENTS :: nat where
  "NUM_QUAD_ELEMENTS = 30"

text \<open>\<^verbatim>\<open>sizeof(float)\<close>, on the platforms the program is built for.\<close>

definition sizeof_float :: nat where
  "sizeof_float = 4"

text \<open>
  What \<^verbatim>\<open>drawRectangles\<close> does to the world outside, in the order it does it: the
  lines it logs, the array it allocates and frees, its calls of the graphics library,
  and the exit of the process.
\<close>

datatype Event =
  DebugPrint string
  | NewFloatArray nat
  | GlBufferData nat "real list"
  | DeleteArray
  | GlDrawArrays nat nat
  | Exit int

text \<open>
  \<^verbatim>\<open>debugPrint\<close> is a function that prints its message (after a timestamp) unless the
  program is compiled with \<^verbatim>\<open>NDEBUG\<close>; then it is a macro that expands to nothing
  (lines 47 to 106). \<open>ndebug\<close> says which build this is.
\<close>

definition debugPrint :: "bool \<Rightarrow> string \<Rightarrow> Event list" where
  "debugPrint ndebug msg = (if ndebug then [] else [DebugPrint msg])"

text \<open>
  The array of \<^verbatim>\<open>new float[numCoordinates]\<close> starts with unspecified contents (0
  here); the loop overwrites every entry before the array is read.
\<close>

definition drawRectangles :: "bool \<Rightarrow> Rect list \<Rightarrow> Color list \<Rightarrow> Event list" where
  "drawRectangles ndebug rects colors =
     (if length rects \<noteq> length colors
      then debugPrint ndebug
             ''drawRectangles: mismatch between size of rectangles vector and colors vector.''
           @ [Exit 1]
      else (let numCoordinates = length rects * NUM_QUAD_ELEMENTS;
                vertices0 = replicate numCoordinates 0;
                vertices = fold (\<lambda>i v. verticesForRect (rects ! i) v (colors ! i) (i * NUM_QUAD_ELEMENTS))
                             [0 ..< length rects] vertices0
            in [NewFloatArray numCoordinates,
                GlBufferData (sizeof_float * numCoordinates) vertices,
                DeleteArray,
                GlDrawArrays 0 (numCoordinates div 2)]))"

text \<open>The events that build vertex data or draw.\<close>

primrec is_drawing :: "Event \<Rightarrow> bool" where
  "is_drawing (DebugPrint msg) = False"
| "is_drawing (NewFloatArray n) = True"
| "is_drawing (GlBufferData n vs) = True"
| "is_drawing DeleteArray = False"
| "is_drawing (GlDrawArrays first count) = True"
| "is_drawing (Exit status) = False"

primrec is_log :: "Event \<Rightarrow> bool" where
  "is_log (DebugPrint msg) = True"
| "is_log (NewFloatArray n) = False"
| "is_log (GlBufferData n vs) = False"
| "is_log DeleteArray = False"
| "is_log (GlDrawArrays first count) = False"
| "is_log (Exit status) = False"

text \<open>A state for instances: the ball where the left paddle ends, moving left.\<close>

definition grazing_Game :: Game where
  "grazing_Game =
     \<lparr>ball = \<lparr>ball_x = 25, ball_y = 200, xSpeed = - 200, ySpeed = 0\<rparr>,
      leftPlayer = new_Player PLAYER_LEFT,
      rightPlayer = new_Player PLAYER_RIGHT,
      shouldUpdateTitle = False, paused = False, shouldClose = False,
      rand_next = (\<lambda>n. 0)\<rparr>"

text \<open>
  Two balls for instances: level with the centre of a new paddle and moving down, level
  with its top and moving up.
\<close>

definition center_Ball :: Ball where
  "center_Ball = \<lparr>ball_x = 20, ball_y = 465/2, xSpeed = - 200, ySpeed = 200\<rparr>"

definition edge_Ball :: Ball where
  "edge_Ball = \<lparr>ball_x = 20, ball_y = 365/2, xSpeed = - 200, ySpeed = - 200\<rparr>"

text \<open>The ball's velocity as a pair, and the six pairs of the \<^verbatim>\<open>switch\<close> in \<^verbatim>\<open>reset\<close>.\<close>

definition velocity :: "Ball \<Rightarrow> real \<times> real" where
  "velocity b = (xSpeed b, ySpeed b)"

definition six_directions :: "(real \<times> real) set" where
  "six_directions =
     {(MAX_BALL_SPEED, - MAX_BALL_SPEED), (MAX_BALL_SPEED, 0), (MAX_BALL_SPEED, MAX_BALL_SPEED),
      (- MAX_BALL_SPEED, MAX_BALL_SPEED), (- MAX_BALL_SPEED, 0), (- MAX_BALL_SPEED, - MAX_BALL_SPEED)}"

text \<open>The bound on the ball's velocity: no component exceeds \<^verbatim>\<open>MAX_BALL_SPEED\<close>.\<close>

definition speed_ok :: "Ball \<Rightarrow> bool" where
  "speed_ok b = (\<bar>xSpeed b\<bar> \<le> MAX_BALL_SPEED \<and> \<bar>ySpeed b\<bar> \<le> MAX_BALL_SPEED)"

text \<open>Two states for instances: the ball about to leave on the left, and on the right.\<close>

definition leaving_left_Game :: Game where
  "leaving_left_Game =
     \<lparr>ball = \<lparr>ball_x = 1, ball_y = 100, xSpeed = - 200, ySpeed = 200\<rparr>,
      leftPlayer = new_Player PLAYER_LEFT,
      rightPlayer = new_Player PLAYER_RIGHT,
      shouldUpdateTitle = False, paused = False, shouldClose = False,
      rand_next = (\<lambda>n. 0)\<rparr>"

definition leaving_right_Game :: Game where
  "leaving_right_Game =
     \<lparr>ball = \<lparr>ball_x = 624, ball_y = 100, xSpeed = 200, ySpeed = 200\<rparr>,
      leftPlayer = new_Player PLAYER_LEFT,
      rightPlayer = new_Player PLAYER_RIGHT,
      shouldUpdateTitle = False, paused = False, shouldClose = False,
      rand_next = (\<lambda>n. 0)\<rparr>"

text \<open>
  The state in which \<^verbatim>\<open>Ball::update\<close> reaches its paddle tests (line 359): after the
  move, the two scoring tests and the wall test.
\<close>

definition before_paddles :: "real \<Rightarrow> Game \<Rightarrow> Game" where
  "before_paddles elapsed g =
     update_wall (update_score_left (update_score_right (update_move elapsed g)))"

text \<open>
  The paddles where their constructors put them: \<open>x\<close>, width and height of a paddle
  never change afterwards (\<^verbatim>\<open>moveVertical\<close> only writes \<open>y\<close>).
\<close>

definition paddles_in_place :: "Game \<Rightarrow> bool" where
  "paddles_in_place g =
     (rect_x (coords (leftPlayer g)) = 10
      \<and> width (coords (leftPlayer g)) = PLAYER_WIDTH
      \<and> height (coords (leftPlayer g)) = PLAYER_HEIGHT
      \<and> rect_x (coords (rightPlayer g)) = real_of_int SCREEN_WIDTH - PLAYER_WIDTH - 10
      \<and> width (coords (rightPlayer g)) = PLAYER_WIDTH
      \<and> height (coords (rightPlayer g)) = PLAYER_HEIGHT)"

text \<open>Two states for instances: the ball overlapping the left paddle, and the right one.\<close>

definition hit_left_Game :: Game where
  "hit_left_Game =
     \<lparr>ball = \<lparr>ball_x = 22, ball_y = 200, xSpeed = - 200, ySpeed = - 200\<rparr>,
      leftPlayer = new_Player PLAYER_LEFT,
      rightPlayer = new_Player PLAYER_RIGHT,
      shouldUpdateTitle = False, paused = False, shouldClose = False,
      rand_next = (\<lambda>n. 0)\<rparr>"

definition hit_right_Game :: Game where
  "hit_right_Game =
     \<lparr>ball = \<lparr>ball_x = 608, ball_y = 200, xSpeed = 200, ySpeed = - 200\<rparr>,
      leftPlayer = new_Player PLAYER_LEFT,
      rightPlayer = new_Player PLAYER_RIGHT,
      shouldUpdateTitle = False, paused = False, shouldClose = False,
      rand_next = (\<lambda>n. 0)\<rparr>"

text \<open>A state for instances: the ball about to cross the top of the screen.\<close>

definition wall_Game :: Game where
  "wall_Game =
     \<lparr>ball = \<lparr>ball_x = 300, ball_y = 1, xSpeed = 200, ySpeed = - 200\<rparr>,
      leftPlayer = new_Player PLAYER_LEFT,
      rightPlayer = new_Player PLAYER_RIGHT,
      shouldUpdateTitle = False, paused = False, shouldClose = False,
      rand_next = (\<lambda>n. 0)\<rparr>"

text \<open>A press of the space bar, among the happenings of the main loop.\<close>

primrec space_pressed :: "Happening \<Rightarrow> bool" where
  "space_pressed (Frame elapsed) = False"
| "space_pressed (KeyEvent key action) = PRESSED key action GLFW_KEY_SPACE"

section \<open>Properties\<close>

subsection \<open>Geometry\<close>

lemma contains_iff:
  "contains r p \<longleftrightarrow>
     rect_x r < point_x p \<and> point_x p < rect_x r + width r
     \<and> rect_y r < point_y p \<and> point_y p < rect_y r + height r"
  by (auto simp: contains_def)

lemma boundary_not_contained: "on_boundary r p \<Longrightarrow> \<not> contains r p"
  by (auto simp: on_boundary_def contains_iff)

lemma own_corners_not_contained:
  "cornerPoints r = (p1, p2, p3, p4) \<Longrightarrow>
     \<not> contains r p1 \<and> \<not> contains r p2 \<and> \<not> contains r p3 \<and> \<not> contains r p4"
  by (auto simp: cornerPoints_def contains_iff)

lemma corner_in_overlap:
  assumes "contains b \<lparr>point_x = px, point_y = py\<rparr>"
    and "rect_x a \<le> px" "px \<le> rect_x a + width a"
    and "rect_y a \<le> py" "py \<le> rect_y a + height a"
  shows "rect_x b < rect_x a + width a \<and> rect_x a < rect_x b + width b
         \<and> rect_y b < rect_y a + height a \<and> rect_y a < rect_y b + height b"
  using assms by (simp add: contains_iff)

lemma intersects_cases:
  "intersects a b \<longleftrightarrow>
     contains b \<lparr>point_x = rect_x a, point_y = rect_y a\<rparr>
     \<or> contains b \<lparr>point_x = rect_x a + width a, point_y = rect_y a\<rparr>
     \<or> contains b \<lparr>point_x = rect_x a, point_y = rect_y a + height a\<rparr>
     \<or> contains b \<lparr>point_x = rect_x a + width a, point_y = rect_y a + height a\<rparr>
     \<or> contains a \<lparr>point_x = rect_x b, point_y = rect_y b\<rparr>
     \<or> contains a \<lparr>point_x = rect_x b + width b, point_y = rect_y b\<rparr>
     \<or> contains a \<lparr>point_x = rect_x b, point_y = rect_y b + height b\<rparr>
     \<or> contains a \<lparr>point_x = rect_x b + width b, point_y = rect_y b + height b\<rparr>"
  unfolding intersects_def cornerPoints_def by (simp only: prod.case if_bool_eq_disj) blast

lemma intersects_overlap:
  assumes "intersects a b"
    and "0 \<le> width a" "0 \<le> height a" "0 \<le> width b" "0 \<le> height b"
  shows "rect_x b < rect_x a + width a \<and> rect_x a < rect_x b + width b
         \<and> rect_y b < rect_y a + height a \<and> rect_y a < rect_y b + height b"
proof -
  have A: "contains b \<lparr>point_x = px, point_y = py\<rparr> \<Longrightarrow>
           rect_x a \<le> px \<Longrightarrow> px \<le> rect_x a + width a \<Longrightarrow>
           rect_y a \<le> py \<Longrightarrow> py \<le> rect_y a + height a \<Longrightarrow> ?thesis" for px py
    using corner_in_overlap [of b px py a] by simp
  have B: "contains a \<lparr>point_x = px, point_y = py\<rparr> \<Longrightarrow>
           rect_x b \<le> px \<Longrightarrow> px \<le> rect_x b + width b \<Longrightarrow>
           rect_y b \<le> py \<Longrightarrow> py \<le> rect_y b + height b \<Longrightarrow> ?thesis" for px py
    using corner_in_overlap [of a px py b] by simp
  from assms(1) consider
      "contains b \<lparr>point_x = rect_x a, point_y = rect_y a\<rparr>"
    | "contains b \<lparr>point_x = rect_x a + width a, point_y = rect_y a\<rparr>"
    | "contains b \<lparr>point_x = rect_x a, point_y = rect_y a + height a\<rparr>"
    | "contains b \<lparr>point_x = rect_x a + width a, point_y = rect_y a + height a\<rparr>"
    | "contains a \<lparr>point_x = rect_x b, point_y = rect_y b\<rparr>"
    | "contains a \<lparr>point_x = rect_x b + width b, point_y = rect_y b\<rparr>"
    | "contains a \<lparr>point_x = rect_x b, point_y = rect_y b + height b\<rparr>"
    | "contains a \<lparr>point_x = rect_x b + width b, point_y = rect_y b + height b\<rparr>"
    unfolding intersects_cases by blast
  then show ?thesis
  proof cases
    case 1 from A [OF this] assms(2-5) show ?thesis by simp
  next
    case 2 from A [OF this] assms(2-5) show ?thesis by simp
  next
    case 3 from A [OF this] assms(2-5) show ?thesis by simp
  next
    case 4 from A [OF this] assms(2-5) show ?thesis by simp
  next
    case 5 from B [OF this] assms(2-5) show ?thesis by simp
  next
    case 6 from B [OF this] assms(2-5) show ?thesis by simp
  next
    case 7 from B [OF this] assms(2-5) show ?thesis by simp
  next
    case 8 from B [OF this] assms(2-5) show ?thesis by simp
  qed
qed

lemma no_overlap_not_intersects:
  assumes "0 \<le> width a" "0 \<le> height a" "0 \<le> width b" "0 \<le> height b"
    and "no_overlap a b"
  shows "\<not> intersects a b"
proof
  assume "intersects a b"
  from intersects_overlap [OF this assms(1-4)] assms(5) show False
    by (simp add: no_overlap_def)
qed

lemma hit_left_no_overlap:
  assumes "0 \<le> width (getCoords (leftPlayer g))" "0 \<le> height (getCoords (leftPlayer g))"
    "0 \<le> width ballRect" "0 \<le> height ballRect"
    "no_overlap (getCoords (leftPlayer g)) ballRect"
  shows "update_hit_left ballRect g = g"
  using no_overlap_not_intersects [OF assms] by (simp add: update_hit_left_def)

lemma hit_right_no_overlap:
  assumes "0 \<le> width (getCoords (rightPlayer g))" "0 \<le> height (getCoords (rightPlayer g))"
    "0 \<le> width ballRect" "0 \<le> height ballRect"
    "no_overlap (getCoords (rightPlayer g)) ballRect"
  shows "update_hit_right ballRect g = g"
  using no_overlap_not_intersects [OF assms] by (simp add: update_hit_right_def)

text \<open>
  Claim C10. \<^verbatim>\<open>Rect::contains\<close> compares strictly: a point on the boundary of a
  rectangle, and each of the rectangle's own corner points, is not contained in it. So
  \<^verbatim>\<open>Rect::intersects\<close> is false for two rectangles (of non-negative width and
  height) that have no interior point in common, in particular for two that touch along
  an edge or at a corner; and a ball whose rectangle only touches a paddle is not
  bounced: the paddle steps of \<^verbatim>\<open>Ball::update\<close> leave the state as it is.
\<close>

theorem Rect_contains_strict:
  "(on_boundary r p \<longrightarrow> \<not> contains r p)
   \<and> (case cornerPoints r of (p1, p2, p3, p4) \<Rightarrow>
         \<not> contains r p1 \<and> \<not> contains r p2 \<and> \<not> contains r p3 \<and> \<not> contains r p4)
   \<and> (0 \<le> width a \<and> 0 \<le> height a \<and> 0 \<le> width b \<and> 0 \<le> height b \<and> no_overlap a b
        \<longrightarrow> \<not> intersects a b)
   \<and> (no_overlap (getCoords (leftPlayer g)) (make_ballRect g)
        \<and> 0 \<le> width (getCoords (leftPlayer g)) \<and> 0 \<le> height (getCoords (leftPlayer g))
        \<longrightarrow> update_hit_left (make_ballRect g) g = g)
   \<and> (no_overlap (getCoords (rightPlayer g)) (make_ballRect g)
        \<and> 0 \<le> width (getCoords (rightPlayer g)) \<and> 0 \<le> height (getCoords (rightPlayer g))
        \<longrightarrow> update_hit_right (make_ballRect g) g = g)"
proof (intro conjI impI)
  show "\<not> contains r p" if "on_boundary r p"
    using that by (rule boundary_not_contained)
  show "case cornerPoints r of (p1, p2, p3, p4) \<Rightarrow>
         \<not> contains r p1 \<and> \<not> contains r p2 \<and> \<not> contains r p3 \<and> \<not> contains r p4"
    using own_corners_not_contained [of r] by (auto split: prod.splits)
  show "\<not> intersects a b"
    if "0 \<le> width a \<and> 0 \<le> height a \<and> 0 \<le> width b \<and> 0 \<le> height b \<and> no_overlap a b"
    using that by (simp add: no_overlap_not_intersects)
  have sz: "0 \<le> width (make_ballRect g)" "0 \<le> height (make_ballRect g)"
    by (simp_all add: make_ballRect_def BALL_SIZE_def)
  show "update_hit_left (make_ballRect g) g = g"
    if "no_overlap (getCoords (leftPlayer g)) (make_ballRect g)
        \<and> 0 \<le> width (getCoords (leftPlayer g)) \<and> 0 \<le> height (getCoords (leftPlayer g))"
    using that sz by (simp add: hit_left_no_overlap)
  show "update_hit_right (make_ballRect g) g = g"
    if "no_overlap (getCoords (rightPlayer g)) (make_ballRect g)
        \<and> 0 \<le> width (getCoords (rightPlayer g)) \<and> 0 \<le> height (getCoords (rightPlayer g))"
    using that sz by (simp add: hit_right_no_overlap)
qed

text \<open>
  The instance: the ball at \<open>x = 25\<close>, where the left paddle (from 10 to 25) ends.
\<close>

theorem Rect_contains_strict_witness:
  "on_boundary \<lparr>rect_x = 10, rect_y = 190, width = 15, height = 100\<rparr> \<lparr>point_x = 25, point_y = 200\<rparr>
   \<and> \<not> contains \<lparr>rect_x = 10, rect_y = 190, width = 15, height = 100\<rparr> \<lparr>point_x = 25, point_y = 200\<rparr>
   \<and> no_overlap \<lparr>rect_x = 10, rect_y = 190, width = 15, height = 100\<rparr>
                 \<lparr>rect_x = 25, rect_y = 200, width = 15, height = 15\<rparr>
   \<and> \<not> intersects \<lparr>rect_x = 10, rect_y = 190, width = 15, height = 100\<rparr>
                 \<lparr>rect_x = 25, rect_y = 200, width = 15, height = 15\<rparr>
   \<and> getCoords (leftPlayer grazing_Game) = \<lparr>rect_x = 10, rect_y = 190, width = 15, height = 100\<rparr>
   \<and> make_ballRect grazing_Game = \<lparr>rect_x = 25, rect_y = 200, width = 15, height = 15\<rparr>
   \<and> update_hit_left (make_ballRect grazing_Game) grazing_Game = grazing_Game
   \<and> update_hit_right (make_ballRect grazing_Game) grazing_Game = grazing_Game"
proof -
  let ?R = "\<lparr>rect_x = 10, rect_y = 190, width = 15, height = 100\<rparr>"
  let ?B = "\<lparr>rect_x = 25, rect_y = 200, width = 15, height = 15\<rparr>"
  let ?P = "\<lparr>point_x = 25, point_y = 200\<rparr>"
  have c: "getCoords (leftPlayer grazing_Game) = ?R"
    by (simp add: grazing_Game_def getCoords_def new_Player_def constants)
  have c': "getCoords (rightPlayer grazing_Game) = \<lparr>rect_x = 615, rect_y = 190, width = 15, height = 100\<rparr>"
    by (simp add: grazing_Game_def getCoords_def new_Player_def constants)
  have b: "make_ballRect grazing_Game = ?B"
    by (simp add: grazing_Game_def make_ballRect_def constants)
  have h1: "on_boundary ?R ?P"
    by (simp add: on_boundary_def)
  have h2: "no_overlap ?R ?B"
    by (simp add: no_overlap_def)
  have h3: "no_overlap (getCoords (rightPlayer grazing_Game)) (make_ballRect grazing_Game)"
    unfolding c' b by (simp add: no_overlap_def)
  note T = Rect_contains_strict [of ?R ?P ?R ?B grazing_Game]
  from T h1 have 1: "\<not> contains ?R ?P" by blast
  have "0 \<le> width ?R \<and> 0 \<le> height ?R \<and> 0 \<le> width ?B \<and> 0 \<le> height ?B" by simp
  with T h2 have 2: "\<not> intersects ?R ?B" by blast
  have "no_overlap (getCoords (leftPlayer grazing_Game)) (make_ballRect grazing_Game)
        \<and> 0 \<le> width (getCoords (leftPlayer grazing_Game))
        \<and> 0 \<le> height (getCoords (leftPlayer grazing_Game))"
    unfolding c b using h2 by simp
  with T have 3: "update_hit_left (make_ballRect grazing_Game) grazing_Game = grazing_Game"
    by blast
  have "no_overlap (getCoords (rightPlayer grazing_Game)) (make_ballRect grazing_Game)
        \<and> 0 \<le> width (getCoords (rightPlayer grazing_Game))
        \<and> 0 \<le> height (getCoords (rightPlayer grazing_Game))"
    using h3 unfolding c' by simp
  with T have 4: "update_hit_right (make_ballRect grazing_Game) grazing_Game = grazing_Game"
    by blast
  from h1 1 h2 2 c b 3 4 show ?thesis by blast
qed

subsection \<open>Paddles and bounces\<close>

lemma moveVertical_y:
  "rect_y (coords (moveVertical d p)) =
     max 0 (min (real_of_int SCREEN_HEIGHT - PLAYER_HEIGHT) (rect_y (coords p) + d))"
  by (simp add: moveVertical_def Let_def constants)

lemma moveVertical_frame:
  "rect_x (coords (moveVertical d p)) = rect_x (coords p)"
  "width (coords (moveVertical d p)) = width (coords p)"
  "height (coords (moveVertical d p)) = height (coords p)"
  "score (moveVertical d p) = score p"
  "side (moveVertical d p) = side p"
  "verticalSpeed (moveVertical d p) = verticalSpeed p"
  by (simp_all add: moveVertical_def Let_def)

text \<open>
  Claim C5. After \<^verbatim>\<open>Player::update\<close> the paddle's \<open>y\<close> is between 0 and
  \<^verbatim>\<open>SCREEN_HEIGHT - PLAYER_HEIGHT\<close>, for every elapsed time (negative ones too) and
  every paddle: it is the old \<open>y\<close> plus \<open>verticalSpeed * elapsed\<close>, clamped to that
  interval.
\<close>

theorem Player_update_clamped:
  "0 \<le> rect_y (coords (Player_update elapsed p))
   \<and> rect_y (coords (Player_update elapsed p)) \<le> real_of_int SCREEN_HEIGHT - PLAYER_HEIGHT
   \<and> rect_y (coords (Player_update elapsed p)) =
       max 0 (min (real_of_int SCREEN_HEIGHT - PLAYER_HEIGHT)
                  (rect_y (coords p) + verticalSpeed p * elapsed))"
  by (simp add: Player_update_def moveVertical_y constants)

lemma normalizedDistance_bounds: "0 \<le> normalizedDistance b p \<and> normalizedDistance b p \<le> 1"
  by (simp add: normalizedDistance_def constants)

lemma speedScale_bounds:
  "1/2 \<le> speedScaleX b p" "speedScaleX b p \<le> 1" "1/2 \<le> speedScaleY b p" "speedScaleY b p \<le> 1"
  using normalizedDistance_bounds [of b p]
  by (simp_all add: speedScaleX_def speedScaleY_def)

lemma bounce_fst: "fst (bounce b p) = MAX_BALL_SPEED"
  using speedScale_bounds(1) [of b p] by (simp add: bounce_def Let_def constants)

lemma bounce_snd_abs: "\<bar>snd (bounce b p)\<bar> = MAX_BALL_SPEED * speedScaleY b p"
  using speedScale_bounds(3) [of b p] by (simp add: bounce_def Let_def copysignf_def constants)

lemma bounce_snd: "snd (bounce b p) = copysignf (MAX_BALL_SPEED * speedScaleY b p) (ySpeed b)"
  by (simp add: bounce_def Let_def)

text \<open>
  Claim C3. In \<^verbatim>\<open>Ball::bounce\<close> both scales are between 0.5 and 1. With the ball's
  centre at the height of the paddle's centre the horizontal scale is 1 and the vertical
  scale 0.5; at normalized distance 1 (the ball's centre half a paddle height from the
  paddle's centre, or more) the horizontal scale is 0.5 and the vertical scale 1. The
  speeds \<^verbatim>\<open>bounce\<close> returns are made of these scales: the horizontal speed is the
  maximum times the horizontal scale, plus half the maximum, clamped to the maximum; the
  vertical speed is the maximum times the vertical scale, with the sign of the ball's
  vertical speed. So at the centre the sum before the clamp is one and a half times the
  maximum and \<^verbatim>\<open>bounce\<close> returns the maximum and half the maximum; at normalized
  distance 1 the sum is the maximum and \<^verbatim>\<open>bounce\<close> returns the maximum twice.
\<close>

theorem Ball_bounce_scales:
  "1/2 \<le> speedScaleX b p \<and> speedScaleX b p \<le> 1
   \<and> 1/2 \<le> speedScaleY b p \<and> speedScaleY b p \<le> 1
   \<and> (ballCenterY b = playerCenterY p \<longrightarrow> speedScaleX b p = 1 \<and> speedScaleY b p = 1/2)
   \<and> (normalizedDistance b p = 1 \<longrightarrow> speedScaleX b p = 1/2 \<and> speedScaleY b p = 1)
   \<and> (HALF_PLAYER_HEIGHT \<le> \<bar>playerCenterY p - ballCenterY b\<bar> \<longrightarrow> normalizedDistance b p = 1)
   \<and> fst (bounce b p) =
       min MAX_BALL_SPEED (MAX_BALL_SPEED * speedScaleX b p + MAX_BALL_SPEED / 2)
   \<and> snd (bounce b p) = copysignf (MAX_BALL_SPEED * speedScaleY b p) (ySpeed b)
   \<and> \<bar>snd (bounce b p)\<bar> = MAX_BALL_SPEED * speedScaleY b p
   \<and> (snd (bounce b p) < 0) = (ySpeed b < 0)
   \<and> (ballCenterY b = playerCenterY p \<longrightarrow>
        MAX_BALL_SPEED * speedScaleX b p + MAX_BALL_SPEED / 2 = 3 * MAX_BALL_SPEED / 2
        \<and> bounce b p = (MAX_BALL_SPEED, copysignf (MAX_BALL_SPEED / 2) (ySpeed b)))
   \<and> (normalizedDistance b p = 1 \<longrightarrow>
        MAX_BALL_SPEED * speedScaleX b p + MAX_BALL_SPEED / 2 = MAX_BALL_SPEED
        \<and> bounce b p = (MAX_BALL_SPEED, copysignf MAX_BALL_SPEED (ySpeed b)))"
proof -
  note s = speedScale_bounds [of b p]
  have c: "speedScaleX b p = 1 \<and> speedScaleY b p = 1/2" if "ballCenterY b = playerCenterY p"
    using that by (simp add: speedScaleX_def speedScaleY_def normalizedDistance_def constants)
  have e: "speedScaleX b p = 1/2 \<and> speedScaleY b p = 1" if "normalizedDistance b p = 1"
    using that by (simp add: speedScaleX_def speedScaleY_def)
  have n: "normalizedDistance b p = 1" if "HALF_PLAYER_HEIGHT \<le> \<bar>playerCenterY p - ballCenterY b\<bar>"
    using that by (simp add: normalizedDistance_def constants)
  have f: "fst (bounce b p) =
       min MAX_BALL_SPEED (MAX_BALL_SPEED * speedScaleX b p + MAX_BALL_SPEED / 2)"
    by (simp add: bounce_def Let_def)
  have sg: "(snd (bounce b p) < 0) = (ySpeed b < 0)"
    using s(3) by (simp add: bounce_snd copysignf_def MAX_BALL_SPEED_def)
  have bc: "bounce b p = (MAX_BALL_SPEED, copysignf (MAX_BALL_SPEED / 2) (ySpeed b))"
    if "ballCenterY b = playerCenterY p"
  proof -
    from c [OF that] have y: "speedScaleY b p = 1/2" by blast
    from bounce_fst [of b p] bounce_snd [of b p] show ?thesis
      unfolding y by (simp add: prod_eq_iff)
  qed
  have be: "bounce b p = (MAX_BALL_SPEED, copysignf MAX_BALL_SPEED (ySpeed b))"
    if "normalizedDistance b p = 1"
    using e [OF that] by (simp add: prod_eq_iff bounce_fst bounce_snd)
  have xc: "MAX_BALL_SPEED * speedScaleX b p + MAX_BALL_SPEED / 2 = 3 * MAX_BALL_SPEED / 2"
    if "ballCenterY b = playerCenterY p"
    using c [OF that] by simp
  have xe: "MAX_BALL_SPEED * speedScaleX b p + MAX_BALL_SPEED / 2 = MAX_BALL_SPEED"
    if "normalizedDistance b p = 1"
  proof -
    from e [OF that] have x: "speedScaleX b p = 1/2" by blast
    show ?thesis unfolding x by simp
  qed
  from s c e n f sg bc be xc xe bounce_snd [of b p] bounce_snd_abs [of b p]
  show ?thesis by blast
qed

theorem Ball_bounce_scales_witness:
  "ballCenterY center_Ball = playerCenterY (new_Player PLAYER_LEFT)
   \<and> speedScaleX center_Ball (new_Player PLAYER_LEFT) = 1
   \<and> speedScaleY center_Ball (new_Player PLAYER_LEFT) = 1/2
   \<and> bounce center_Ball (new_Player PLAYER_LEFT) = (200, 100)
   \<and> \<bar>playerCenterY (new_Player PLAYER_LEFT) - ballCenterY edge_Ball\<bar> = HALF_PLAYER_HEIGHT
   \<and> normalizedDistance edge_Ball (new_Player PLAYER_LEFT) = 1
   \<and> speedScaleX edge_Ball (new_Player PLAYER_LEFT) = 1/2
   \<and> speedScaleY edge_Ball (new_Player PLAYER_LEFT) = 1
   \<and> bounce edge_Ball (new_Player PLAYER_LEFT) = (200, - 200)"
proof -
  have c: "ballCenterY center_Ball = playerCenterY (new_Player PLAYER_LEFT)"
    by (simp add: ballCenterY_def playerCenterY_def center_Ball_def new_Player_def
        getCoords_def constants)
  have e: "\<bar>playerCenterY (new_Player PLAYER_LEFT) - ballCenterY edge_Ball\<bar> = HALF_PLAYER_HEIGHT"
    by (simp add: ballCenterY_def playerCenterY_def edge_Ball_def new_Player_def
        getCoords_def constants)
  have y: "ySpeed center_Ball = 200" "ySpeed edge_Ball = - 200"
    by (simp_all add: center_Ball_def edge_Ball_def)
  from c e Ball_bounce_scales [of center_Ball "new_Player PLAYER_LEFT"]
    Ball_bounce_scales [of edge_Ball "new_Player PLAYER_LEFT"]
  show ?thesis by (simp add: y copysignf_def MAX_BALL_SPEED_def)
qed

subsection \<open>Reset\<close>

lemma randomInteger_1_7: "randomInteger 1 7 r = int (r mod 6) + 1"
  by (cases "r = 0") (simp_all add: randomInteger_def c_rem_def Let_def zmod_int)

lemma randomInteger_range: "1 \<le> randomInteger 1 7 r \<and> randomInteger 1 7 r \<le> 6"
proof -
  have "r mod 6 < 6" by simp
  then show ?thesis unfolding randomInteger_1_7 by linarith
qed

lemma Ball_reset_ball:
  "ball (Ball_reset g) =
     reset_direction (randomInteger 1 7 (rand_next g 0))
       ((ball g)\<lparr>ball_x := real_of_int (SCREEN_WIDTH div 2) - BALL_SIZE / 2,
                  ball_y := real_of_int (SCREEN_HEIGHT div 2) - BALL_SIZE / 2\<rparr>)"
  by (simp add: Ball_reset_def rand_def Let_def)

lemma Ball_reset_frame:
  "leftPlayer (Ball_reset g) = leftPlayer g"
  "rightPlayer (Ball_reset g) = rightPlayer g"
  "paused (Ball_reset g) = paused g"
  "shouldClose (Ball_reset g) = shouldClose g"
  "shouldUpdateTitle (Ball_reset g) = shouldUpdateTitle g"
  by (simp_all add: Ball_reset_def rand_def Let_def)

lemma reset_direction_pos:
  "ball_x (reset_direction d b) = ball_x b" "ball_y (reset_direction d b) = ball_y b"
  by (simp_all add: reset_direction_def)

lemma reset_direction_velocity:
  assumes "1 \<le> d" "d \<le> 6"
  shows "velocity (reset_direction d b) \<in> six_directions"
proof -
  from assms have "d = 1 \<or> d = 2 \<or> d = 3 \<or> d = 4 \<or> d = 5 \<or> d = 6" by arith
  then show ?thesis
    by (elim disjE) (simp_all add: reset_direction_def velocity_def six_directions_def)
qed

lemma Ball_reset_position:
  "ball_x (ball (Ball_reset g)) = 625/2" "ball_y (ball (Ball_reset g)) = 465/2"
  by (simp_all add: Ball_reset_ball reset_direction_pos constants)

lemma Ball_reset_velocity: "velocity (ball (Ball_reset g)) \<in> six_directions"
  unfolding Ball_reset_ball using randomInteger_range [of "rand_next g 0"]
  by (simp add: reset_direction_velocity)

lemma six_directions_x: "v \<in> six_directions \<Longrightarrow> \<bar>fst v\<bar> = MAX_BALL_SPEED \<and> fst v \<noteq> 0"
  by (auto simp: six_directions_def constants)

lemma card_six_directions: "card six_directions = 6"
  by (simp add: six_directions_def constants)

lemma Ball_reset_at:
  "velocity (ball (Ball_reset (g\<lparr>rand_next := (\<lambda>n. r)\<rparr>))) =
     velocity (reset_direction (int (r mod 6) + 1) (ball g))"
  by (simp add: Ball_reset_ball randomInteger_1_7 reset_direction_def velocity_def)

lemma six_directions_produced:
  "six_directions \<subseteq> range (\<lambda>r. velocity (ball (Ball_reset (g\<lparr>rand_next := (\<lambda>n. r)\<rparr>))))"
proof (rule subsetI)
  fix v assume "v \<in> six_directions"
  let ?f = "\<lambda>r. velocity (ball (Ball_reset (g\<lparr>rand_next := (\<lambda>n. r)\<rparr>)))"
  have f: "?f r = velocity (reset_direction (int (r mod 6) + 1) (ball g))" for r
    by (rule Ball_reset_at)
  have "?f 0 = (MAX_BALL_SPEED, - MAX_BALL_SPEED)" "?f 1 = (MAX_BALL_SPEED, 0)"
    "?f 2 = (MAX_BALL_SPEED, MAX_BALL_SPEED)" "?f 3 = (- MAX_BALL_SPEED, MAX_BALL_SPEED)"
    "?f 4 = (- MAX_BALL_SPEED, 0)" "?f 5 = (- MAX_BALL_SPEED, - MAX_BALL_SPEED)"
    unfolding f by (simp_all add: reset_direction_def velocity_def)
  note at = this
  from \<open>v \<in> six_directions\<close> consider
      "v = (MAX_BALL_SPEED, - MAX_BALL_SPEED)" | "v = (MAX_BALL_SPEED, 0)"
    | "v = (MAX_BALL_SPEED, MAX_BALL_SPEED)" | "v = (- MAX_BALL_SPEED, MAX_BALL_SPEED)"
    | "v = (- MAX_BALL_SPEED, 0)" | "v = (- MAX_BALL_SPEED, - MAX_BALL_SPEED)"
    unfolding six_directions_def by blast
  then show "v \<in> range ?f"
  proof cases
    case 1 with at(1) have "v = ?f 0" by simp
    then show ?thesis by (rule range_eqI [where f = ?f])
  next
    case 2 with at(2) have "v = ?f 1" by simp
    then show ?thesis by (rule range_eqI [where f = ?f])
  next
    case 3 with at(3) have "v = ?f 2" by simp
    then show ?thesis by (rule range_eqI [where f = ?f])
  next
    case 4 with at(4) have "v = ?f 3" by simp
    then show ?thesis by (rule range_eqI [where f = ?f])
  next
    case 5 with at(5) have "v = ?f 4" by simp
    then show ?thesis by (rule range_eqI [where f = ?f])
  next
    case 6 with at(6) have "v = ?f 5" by simp
    then show ?thesis by (rule range_eqI [where f = ?f])
  qed
qed

text \<open>
  Claim C6. The integer \<^verbatim>\<open>randomInteger(1, 7)\<close> is between 1 and 6, whatever
  \<^verbatim>\<open>rand()\<close> returns. After \<^verbatim>\<open>Ball::reset\<close> the velocity is one of the six pairs
  of the \<^verbatim>\<open>switch\<close>; its horizontal component has magnitude \<^verbatim>\<open>MAX_BALL_SPEED\<close>,
  so it is never 0 (never straight up or down). The six pairs are distinct, and each of
  them is the result for some value of \<^verbatim>\<open>rand()\<close>.
\<close>

theorem Ball_reset_six_directions:
  "1 \<le> randomInteger 1 7 r \<and> randomInteger 1 7 r \<le> 6
   \<and> velocity (ball (Ball_reset g)) \<in> six_directions
   \<and> \<bar>xSpeed (ball (Ball_reset g))\<bar> = MAX_BALL_SPEED
   \<and> xSpeed (ball (Ball_reset g)) \<noteq> 0
   \<and> card six_directions = 6
   \<and> range (\<lambda>r. velocity (ball (Ball_reset (g\<lparr>rand_next := (\<lambda>n. r)\<rparr>)))) = six_directions"
proof -
  have "range (\<lambda>r. velocity (ball (Ball_reset (g\<lparr>rand_next := (\<lambda>n. r)\<rparr>)))) \<subseteq> six_directions"
    using Ball_reset_velocity by blast
  with six_directions_produced [of g]
  have "range (\<lambda>r. velocity (ball (Ball_reset (g\<lparr>rand_next := (\<lambda>n. r)\<rparr>)))) = six_directions"
    by (rule subset_antisym [rotated])
  moreover from six_directions_x [OF Ball_reset_velocity [of g]]
  have "\<bar>xSpeed (ball (Ball_reset g))\<bar> = MAX_BALL_SPEED \<and> xSpeed (ball (Ball_reset g)) \<noteq> 0"
    by (simp add: velocity_def)
  ultimately show ?thesis
    using randomInteger_range [of r] Ball_reset_velocity [of g] card_six_directions by simp
qed

subsection \<open>Speed bound\<close>

lemma six_directions_speed_ok: "velocity b \<in> six_directions \<Longrightarrow> speed_ok b"
  by (auto simp: six_directions_def velocity_def speed_ok_def constants)

lemma Ball_reset_speed_ok: "speed_ok (ball (Ball_reset g))"
  by (rule six_directions_speed_ok [OF Ball_reset_velocity])

lemma Ball_reset_magnitudes:
  "\<bar>xSpeed (ball (Ball_reset g))\<bar> = MAX_BALL_SPEED"
  "\<bar>ySpeed (ball (Ball_reset g))\<bar> = 0 \<or> \<bar>ySpeed (ball (Ball_reset g))\<bar> = MAX_BALL_SPEED"
  using Ball_reset_velocity [of g] by (auto simp: six_directions_def velocity_def constants)

lemma bounce_speed_ok:
  "\<bar>fst (bounce b p)\<bar> \<le> MAX_BALL_SPEED" "\<bar>snd (bounce b p)\<bar> \<le> MAX_BALL_SPEED"
  using speedScale_bounds(4) [of b p]
  by (simp_all add: bounce_fst bounce_snd_abs) (simp_all add: constants)

lemma update_move_velocity:
  "xSpeed (ball (update_move e g)) = xSpeed (ball g)"
  "ySpeed (ball (update_move e g)) = ySpeed (ball g)"
  by (simp_all add: update_move_def)

lemma update_move_speed_ok: "speed_ok (ball (update_move e g)) = speed_ok (ball g)"
  by (simp add: speed_ok_def update_move_velocity)

lemma update_score_right_speed_ok:
  "speed_ok (ball g) \<Longrightarrow> speed_ok (ball (update_score_right g))"
  by (simp add: update_score_right_def Ball_reset_speed_ok)

lemma update_score_left_speed_ok:
  "speed_ok (ball g) \<Longrightarrow> speed_ok (ball (update_score_left g))"
  by (simp add: update_score_left_def Ball_reset_speed_ok)

lemma update_wall_velocity:
  "xSpeed (ball (update_wall g)) = xSpeed (ball g)"
  "ySpeed (ball (update_wall g)) =
     (if ball_y (ball g) < 0 \<or> ball_y (ball g) > real_of_int SCREEN_HEIGHT - BALL_SIZE
      then - ySpeed (ball g) else ySpeed (ball g))"
  by (simp_all add: update_wall_def)

lemma update_wall_speed_ok: "speed_ok (ball (update_wall g)) = speed_ok (ball g)"
  by (simp add: speed_ok_def update_wall_velocity)

lemma update_hit_left_speed_ok:
  "speed_ok (ball g) \<Longrightarrow> speed_ok (ball (update_hit_left r g))"
  using bounce_speed_ok [of "ball g" "leftPlayer g"]
  by (simp add: update_hit_left_def speed_ok_def case_prod_beta)

lemma update_hit_right_speed_ok:
  "speed_ok (ball g) \<Longrightarrow> speed_ok (ball (update_hit_right r g))"
  using bounce_speed_ok [of "ball g" "rightPlayer g"]
  by (simp add: update_hit_right_def speed_ok_def case_prod_beta)

lemma Ball_update_speed_ok:
  assumes "speed_ok (ball g)"
  shows "speed_ok (ball (Ball_update e g))"
  unfolding Ball_update_def Let_def
  by (intro update_hit_right_speed_ok update_hit_left_speed_ok)
    (simp add: update_wall_speed_ok update_score_left_speed_ok update_score_right_speed_ok
      update_move_speed_ok assms)

text \<open>
  Claim C8. The bound \<open>speed_ok\<close> holds after every \<^verbatim>\<open>Ball::reset\<close> and is kept by
  every \<^verbatim>\<open>Ball::update\<close>: \<^verbatim>\<open>reset\<close> assigns a horizontal speed of magnitude
  \<^verbatim>\<open>MAX_BALL_SPEED\<close> and a vertical speed of magnitude 0 or \<^verbatim>\<open>MAX_BALL_SPEED\<close>,
  both speeds of \<^verbatim>\<open>bounce\<close> have magnitude at most \<^verbatim>\<open>MAX_BALL_SPEED\<close>, and the wall
  step keeps the horizontal speed and the magnitude of the vertical speed.
\<close>

theorem Ball_speed_bound:
  "speed_ok (ball (Ball_reset g))
   \<and> (speed_ok (ball g) \<longrightarrow> speed_ok (ball (Ball_update elapsed g)))
   \<and> \<bar>xSpeed (ball (Ball_reset g))\<bar> = MAX_BALL_SPEED
   \<and> (\<bar>ySpeed (ball (Ball_reset g))\<bar> = 0 \<or> \<bar>ySpeed (ball (Ball_reset g))\<bar> = MAX_BALL_SPEED)
   \<and> \<bar>fst (bounce b p)\<bar> \<le> MAX_BALL_SPEED \<and> \<bar>snd (bounce b p)\<bar> \<le> MAX_BALL_SPEED
   \<and> xSpeed (ball (update_wall g)) = xSpeed (ball g)
   \<and> \<bar>ySpeed (ball (update_wall g))\<bar> = \<bar>ySpeed (ball g)\<bar>"
  using Ball_reset_speed_ok [of g] Ball_update_speed_ok [of g elapsed] Ball_reset_magnitudes [of g]
    bounce_speed_ok [of b p]
  by (simp add: update_wall_velocity)

theorem Ball_speed_bound_witness:
  "speed_ok (ball grazing_Game) \<and> speed_ok (ball (Ball_update (1/100) grazing_Game))"
proof -
  have "speed_ok (ball grazing_Game)"
    by (simp add: speed_ok_def grazing_Game_def constants)
  with Ball_speed_bound [of grazing_Game "1/100"] show ?thesis by blast
qed

subsection \<open>Scoring\<close>

lemma update_move_frame:
  "leftPlayer (update_move e g) = leftPlayer g"
  "rightPlayer (update_move e g) = rightPlayer g"
  "ball_x (ball (update_move e g)) = ball_x (ball g) + xSpeed (ball g) * e"
  "ball_y (ball (update_move e g)) = ball_y (ball g) + ySpeed (ball g) * e"
  by (simp_all add: update_move_def)

lemma update_wall_frame:
  "leftPlayer (update_wall g) = leftPlayer g"
  "rightPlayer (update_wall g) = rightPlayer g"
  "ball_x (ball (update_wall g)) = ball_x (ball g)"
  "ball_y (ball (update_wall g)) = ball_y (ball g)"
  "shouldUpdateTitle (update_wall g) = shouldUpdateTitle g"
  "rand_next (update_wall g) = rand_next g"
  by (simp_all add: update_wall_def)

lemma update_hit_left_frame:
  "leftPlayer (update_hit_left r g) = leftPlayer g"
  "rightPlayer (update_hit_left r g) = rightPlayer g"
  "ball_x (ball (update_hit_left r g)) = ball_x (ball g)"
  "ball_y (ball (update_hit_left r g)) = ball_y (ball g)"
  "shouldUpdateTitle (update_hit_left r g) = shouldUpdateTitle g"
  by (simp_all add: update_hit_left_def case_prod_beta)

lemma update_hit_right_frame:
  "leftPlayer (update_hit_right r g) = leftPlayer g"
  "rightPlayer (update_hit_right r g) = rightPlayer g"
  "ball_x (ball (update_hit_right r g)) = ball_x (ball g)"
  "ball_y (ball (update_hit_right r g)) = ball_y (ball g)"
  "shouldUpdateTitle (update_hit_right r g) = shouldUpdateTitle g"
  by (simp_all add: update_hit_right_def case_prod_beta)

lemma update_score_right_scored:
  assumes "ball_x (ball g) < 0"
  shows "rightPlayer (update_score_right g) = incrementScore (rightPlayer g)"
    "leftPlayer (update_score_right g) = leftPlayer g"
    "ball_x (ball (update_score_right g)) = 625/2"
    "ball_y (ball (update_score_right g)) = 465/2"
    "shouldUpdateTitle (update_score_right g)"
  using assms by (simp_all add: update_score_right_def Ball_reset_frame Ball_reset_position)

lemma update_score_left_scored:
  assumes "ball_x (ball g) > real_of_int SCREEN_WIDTH - BALL_SIZE"
  shows "leftPlayer (update_score_left g) = incrementScore (leftPlayer g)"
    "rightPlayer (update_score_left g) = rightPlayer g"
    "ball_x (ball (update_score_left g)) = 625/2"
    "ball_y (ball (update_score_left g)) = 465/2"
    "shouldUpdateTitle (update_score_left g)"
  using assms by (simp_all add: update_score_left_def Ball_reset_frame Ball_reset_position)

lemma update_score_left_idle:
  "\<not> ball_x (ball g) > real_of_int SCREEN_WIDTH - BALL_SIZE \<Longrightarrow> update_score_left g = g"
  by (simp add: update_score_left_def)

lemma update_score_right_idle:
  "\<not> ball_x (ball g) < 0 \<Longrightarrow> update_score_right g = g"
  by (simp add: update_score_right_def)

lemma Ball_update_frame:
  "leftPlayer (Ball_update e g) = leftPlayer (update_score_left (update_score_right (update_move e g)))"
  "rightPlayer (Ball_update e g) = rightPlayer (update_score_left (update_score_right (update_move e g)))"
  "ball_x (ball (Ball_update e g)) = ball_x (ball (update_score_left (update_score_right (update_move e g))))"
  "ball_y (ball (Ball_update e g)) = ball_y (ball (update_score_left (update_score_right (update_move e g))))"
  "shouldUpdateTitle (Ball_update e g) = shouldUpdateTitle (update_score_left (update_score_right (update_move e g)))"
  by (simp_all add: Ball_update_def Let_def update_hit_right_frame update_hit_left_frame update_wall_frame)

lemma Ball_update_right_scores:
  assumes "ball_x (ball g) + xSpeed (ball g) * e < 0"
  shows "rightPlayer (Ball_update e g) = incrementScore (rightPlayer g)"
    "leftPlayer (Ball_update e g) = leftPlayer g"
    "ball_x (ball (Ball_update e g)) = 625/2"
    "ball_y (ball (Ball_update e g)) = 465/2"
    "shouldUpdateTitle (Ball_update e g)"
proof -
  let ?g1 = "update_move e g"
  have 1: "ball_x (ball ?g1) < 0"
    using assms by (simp add: update_move_frame)
  have "\<not> ball_x (ball (update_score_right ?g1)) > real_of_int SCREEN_WIDTH - BALL_SIZE"
    by (simp add: update_score_right_scored [OF 1] constants)
  then have 2: "update_score_left (update_score_right ?g1) = update_score_right ?g1"
    by (rule update_score_left_idle)
  show "rightPlayer (Ball_update e g) = incrementScore (rightPlayer g)"
    "leftPlayer (Ball_update e g) = leftPlayer g"
    "ball_x (ball (Ball_update e g)) = 625/2"
    "ball_y (ball (Ball_update e g)) = 465/2"
    "shouldUpdateTitle (Ball_update e g)"
    unfolding Ball_update_frame 2
    by (simp_all add: update_score_right_scored [OF 1] update_move_frame)
qed

lemma Ball_update_left_scores:
  assumes "ball_x (ball g) + xSpeed (ball g) * e > real_of_int SCREEN_WIDTH - BALL_SIZE"
  shows "leftPlayer (Ball_update e g) = incrementScore (leftPlayer g)"
    "rightPlayer (Ball_update e g) = rightPlayer g"
    "ball_x (ball (Ball_update e g)) = 625/2"
    "ball_y (ball (Ball_update e g)) = 465/2"
    "shouldUpdateTitle (Ball_update e g)"
proof -
  let ?g1 = "update_move e g"
  have 1: "ball_x (ball ?g1) > real_of_int SCREEN_WIDTH - BALL_SIZE"
    using assms by (simp add: update_move_frame)
  then have "\<not> ball_x (ball ?g1) < 0"
    by (simp add: constants)
  then have 2: "update_score_right ?g1 = ?g1"
    by (rule update_score_right_idle)
  show "leftPlayer (Ball_update e g) = incrementScore (leftPlayer g)"
    "rightPlayer (Ball_update e g) = rightPlayer g"
    "ball_x (ball (Ball_update e g)) = 625/2"
    "ball_y (ball (Ball_update e g)) = 465/2"
    "shouldUpdateTitle (Ball_update e g)"
    unfolding Ball_update_frame 2
    by (simp_all add: update_score_left_scored [OF 1] update_move_frame)
qed

text \<open>
  Read as a signed number, the score goes up by one as long as it is below the largest
  \<^verbatim>\<open>int\<close> (where the increment of the source overflows).
\<close>

lemma incrementScore_sint:
  "sint (score p) < 2147483647 \<Longrightarrow> sint (score (incrementScore p)) = sint (score p) + 1"
proof -
  assume a: "sint (score p) < 2147483647"
  have "- (2 ^ 31) \<le> sint (score p)"
    using sint_ge [of "score p"] by simp
  with a have "signed_take_bit 31 (sint (score p) + 1) = sint (score p) + 1"
    by (intro signed_take_bit_int_eq_self) simp_all
  then show ?thesis
    by (simp add: incrementScore_def sint_word_ariths)
qed

text \<open>
  Claim C1. When the position advanced by \<^verbatim>\<open>Ball::update\<close> has \<open>x < 0\<close>, the call
  increments the right player's score once (the score is one more, in 32-bit arithmetic,
  and the left player's is as it was) and ends with the ball at the position
  \<^verbatim>\<open>reset\<close> gives it, its centre at the centre of the screen. When the advanced
  position has \<open>x > SCREEN_WIDTH - BALL_SIZE\<close>, the same holds with the players
  exchanged.
\<close>

theorem Ball_update_scores:
  "(ball_x (ball g) + xSpeed (ball g) * elapsed < 0 \<longrightarrow>
      rightPlayer (Ball_update elapsed g) = incrementScore (rightPlayer g)
      \<and> score (rightPlayer (Ball_update elapsed g)) = score (rightPlayer g) + 1
      \<and> leftPlayer (Ball_update elapsed g) = leftPlayer g
      \<and> ball_x (ball (Ball_update elapsed g)) = real_of_int (SCREEN_WIDTH div 2) - BALL_SIZE / 2
      \<and> ball_y (ball (Ball_update elapsed g)) = real_of_int (SCREEN_HEIGHT div 2) - BALL_SIZE / 2
      \<and> ball_x (ball (Ball_update elapsed g)) + BALL_SIZE / 2 = real_of_int SCREEN_WIDTH / 2
      \<and> ball_y (ball (Ball_update elapsed g)) + BALL_SIZE / 2 = real_of_int SCREEN_HEIGHT / 2)
   \<and> (ball_x (ball g) + xSpeed (ball g) * elapsed > real_of_int SCREEN_WIDTH - BALL_SIZE \<longrightarrow>
      leftPlayer (Ball_update elapsed g) = incrementScore (leftPlayer g)
      \<and> score (leftPlayer (Ball_update elapsed g)) = score (leftPlayer g) + 1
      \<and> rightPlayer (Ball_update elapsed g) = rightPlayer g
      \<and> ball_x (ball (Ball_update elapsed g)) = real_of_int (SCREEN_WIDTH div 2) - BALL_SIZE / 2
      \<and> ball_y (ball (Ball_update elapsed g)) = real_of_int (SCREEN_HEIGHT div 2) - BALL_SIZE / 2
      \<and> ball_x (ball (Ball_update elapsed g)) + BALL_SIZE / 2 = real_of_int SCREEN_WIDTH / 2
      \<and> ball_y (ball (Ball_update elapsed g)) + BALL_SIZE / 2 = real_of_int SCREEN_HEIGHT / 2)"
proof (intro conjI impI)
  assume a: "ball_x (ball g) + xSpeed (ball g) * elapsed < 0"
  note r = Ball_update_right_scores [OF a]
  show "rightPlayer (Ball_update elapsed g) = incrementScore (rightPlayer g)"
    "leftPlayer (Ball_update elapsed g) = leftPlayer g"
    by (fact r)+
  show "score (rightPlayer (Ball_update elapsed g)) = score (rightPlayer g) + 1"
    by (simp add: r incrementScore_def)
  show "ball_x (ball (Ball_update elapsed g)) = real_of_int (SCREEN_WIDTH div 2) - BALL_SIZE / 2"
    "ball_y (ball (Ball_update elapsed g)) = real_of_int (SCREEN_HEIGHT div 2) - BALL_SIZE / 2"
    "ball_x (ball (Ball_update elapsed g)) + BALL_SIZE / 2 = real_of_int SCREEN_WIDTH / 2"
    "ball_y (ball (Ball_update elapsed g)) + BALL_SIZE / 2 = real_of_int SCREEN_HEIGHT / 2"
    by (simp_all add: r constants)
next
  assume a: "ball_x (ball g) + xSpeed (ball g) * elapsed > real_of_int SCREEN_WIDTH - BALL_SIZE"
  note l = Ball_update_left_scores [OF a]
  show "leftPlayer (Ball_update elapsed g) = incrementScore (leftPlayer g)"
    "rightPlayer (Ball_update elapsed g) = rightPlayer g"
    by (fact l)+
  show "score (leftPlayer (Ball_update elapsed g)) = score (leftPlayer g) + 1"
    by (simp add: l incrementScore_def)
  show "ball_x (ball (Ball_update elapsed g)) = real_of_int (SCREEN_WIDTH div 2) - BALL_SIZE / 2"
    "ball_y (ball (Ball_update elapsed g)) = real_of_int (SCREEN_HEIGHT div 2) - BALL_SIZE / 2"
    "ball_x (ball (Ball_update elapsed g)) + BALL_SIZE / 2 = real_of_int SCREEN_WIDTH / 2"
    "ball_y (ball (Ball_update elapsed g)) + BALL_SIZE / 2 = real_of_int SCREEN_HEIGHT / 2"
    by (simp_all add: l constants)
qed

theorem Ball_update_scores_witness:
  "ball_x (ball leaving_left_Game) + xSpeed (ball leaving_left_Game) * (1/100) < 0
   \<and> score (rightPlayer leaving_left_Game) = 0
   \<and> score (rightPlayer (Ball_update (1/100) leaving_left_Game)) = 1
   \<and> score (leftPlayer (Ball_update (1/100) leaving_left_Game)) = 0
   \<and> ball_x (ball (Ball_update (1/100) leaving_left_Game)) = 625/2
   \<and> ball_y (ball (Ball_update (1/100) leaving_left_Game)) = 465/2
   \<and> ball_x (ball leaving_right_Game) + xSpeed (ball leaving_right_Game) * (1/100)
       > real_of_int SCREEN_WIDTH - BALL_SIZE
   \<and> score (leftPlayer leaving_right_Game) = 0
   \<and> score (leftPlayer (Ball_update (1/100) leaving_right_Game)) = 1
   \<and> score (rightPlayer (Ball_update (1/100) leaving_right_Game)) = 0
   \<and> ball_x (ball (Ball_update (1/100) leaving_right_Game)) = 625/2
   \<and> ball_y (ball (Ball_update (1/100) leaving_right_Game)) = 465/2"
proof -
  have l: "ball_x (ball leaving_left_Game) + xSpeed (ball leaving_left_Game) * (1/100) < 0"
    "score (rightPlayer leaving_left_Game) = 0" "score (leftPlayer leaving_left_Game) = 0"
    by (simp_all add: leaving_left_Game_def new_Player_def)
  have r: "ball_x (ball leaving_right_Game) + xSpeed (ball leaving_right_Game) * (1/100)
             > real_of_int SCREEN_WIDTH - BALL_SIZE"
    "score (rightPlayer leaving_right_Game) = 0" "score (leftPlayer leaving_right_Game) = 0"
    by (simp_all add: leaving_right_Game_def new_Player_def constants)
  from l r Ball_update_scores [of leaving_left_Game "1/100"]
    Ball_update_scores [of leaving_right_Game "1/100"]
  show ?thesis by (simp add: constants incrementScore_def)
qed

subsection \<open>Paddle collisions\<close>

lemma Ball_update_before_paddles:
  "Ball_update e g =
     update_hit_right (make_ballRect (before_paddles e g))
       (update_hit_left (make_ballRect (before_paddles e g)) (before_paddles e g))"
  by (simp add: Ball_update_def before_paddles_def Let_def)

lemma incrementScore_coords: "coords (incrementScore p) = coords p"
  by (simp add: incrementScore_def)

lemma update_score_right_coords:
  "coords (leftPlayer (update_score_right g)) = coords (leftPlayer g)"
  "coords (rightPlayer (update_score_right g)) = coords (rightPlayer g)"
  by (simp_all add: update_score_right_def Ball_reset_frame incrementScore_coords)

lemma update_score_left_coords:
  "coords (leftPlayer (update_score_left g)) = coords (leftPlayer g)"
  "coords (rightPlayer (update_score_left g)) = coords (rightPlayer g)"
  by (simp_all add: update_score_left_def Ball_reset_frame incrementScore_coords)

lemma before_paddles_coords:
  "coords (leftPlayer (before_paddles e g)) = coords (leftPlayer g)"
  "coords (rightPlayer (before_paddles e g)) = coords (rightPlayer g)"
  by (simp_all add: before_paddles_def update_wall_frame update_score_left_coords
      update_score_right_coords update_move_frame)

lemma before_paddles_in_place: "paddles_in_place (before_paddles e g) = paddles_in_place g"
  by (simp add: paddles_in_place_def before_paddles_coords)

lemma update_hit_left_xSpeed:
  "xSpeed (ball (update_hit_left r g)) =
     (if intersects (getCoords (leftPlayer g)) r then fst (bounce (ball g) (leftPlayer g))
      else xSpeed (ball g))"
  by (simp add: update_hit_left_def case_prod_beta)

lemma update_hit_right_xSpeed:
  "xSpeed (ball (update_hit_right r g)) =
     (if intersects (getCoords (rightPlayer g)) r then - fst (bounce (ball g) (rightPlayer g))
      else xSpeed (ball g))"
  by (simp add: update_hit_right_def case_prod_beta)

lemma no_double_hit:
  assumes "paddles_in_place g" and "width r = BALL_SIZE" "height r = BALL_SIZE"
    and "intersects (getCoords (leftPlayer g)) r"
  shows "\<not> intersects (getCoords (rightPlayer g)) r"
proof
  assume "intersects (getCoords (rightPlayer g)) r"
  from intersects_overlap [OF this] assms(1-3)
  have "rect_x (coords (rightPlayer g)) < rect_x r + width r"
    by (simp add: getCoords_def paddles_in_place_def constants)
  moreover from intersects_overlap [OF assms(4)] assms(1-3)
  have "rect_x r < rect_x (coords (leftPlayer g)) + width (coords (leftPlayer g))"
    by (simp add: getCoords_def paddles_in_place_def constants)
  ultimately show False
    using assms(1-3) by (simp add: paddles_in_place_def constants)
qed

lemma Ball_update_hit_right:
  assumes "intersects (getCoords (rightPlayer (before_paddles e g))) (make_ballRect (before_paddles e g))"
  shows "xSpeed (ball (Ball_update e g)) = - MAX_BALL_SPEED"
  using assms
  by (simp add: Ball_update_before_paddles update_hit_right_xSpeed update_hit_left_frame bounce_fst)

lemma Ball_update_hit_left:
  assumes "paddles_in_place g"
    and "intersects (getCoords (leftPlayer (before_paddles e g))) (make_ballRect (before_paddles e g))"
  shows "xSpeed (ball (Ball_update e g)) = MAX_BALL_SPEED"
proof -
  let ?s = "before_paddles e g"
  have "paddles_in_place ?s"
    using assms(1) by (simp add: before_paddles_in_place)
  from no_double_hit [OF this _ _ assms(2)]
  have "\<not> intersects (getCoords (rightPlayer ?s)) (make_ballRect ?s)"
    by (simp add: make_ballRect_def)
  with assms(2) show ?thesis
    by (simp add: Ball_update_before_paddles update_hit_right_xSpeed update_hit_left_xSpeed
        update_hit_left_frame bounce_fst)
qed

lemma new_Players_in_place:
  "rect_x (coords (new_Player PLAYER_LEFT)) = 10"
  "rect_x (coords (new_Player PLAYER_RIGHT)) = real_of_int SCREEN_WIDTH - PLAYER_WIDTH - 10"
  "width (coords (new_Player sd)) = PLAYER_WIDTH"
  "height (coords (new_Player sd)) = PLAYER_HEIGHT"
  by (cases sd; simp add: new_Player_def Let_def)+

lemma initial_Game_in_place: "paddles_in_place (initial_Game rs)"
  by (simp add: paddles_in_place_def initial_Game_def Ball_reset_frame new_Players_in_place)

lemma Ball_update_coords:
  "coords (leftPlayer (Ball_update e g)) = coords (leftPlayer g)"
  "coords (rightPlayer (Ball_update e g)) = coords (rightPlayer g)"
  by (simp_all add: Ball_update_before_paddles update_hit_right_frame update_hit_left_frame
      before_paddles_coords)

lemma Player_update_shape:
  "rect_x (coords (Player_update e p)) = rect_x (coords p)"
  "width (coords (Player_update e p)) = width (coords p)"
  "height (coords (Player_update e p)) = height (coords p)"
  by (simp_all add: Player_update_def moveVertical_frame)

lemma update_in_place: "paddles_in_place g \<Longrightarrow> paddles_in_place (update e g)"
  by (simp add: update_def Let_def paddles_in_place_def Player_update_shape Ball_update_coords)

lemma KeyboardCallback_coords:
  "coords (leftPlayer (KeyboardCallback k a g)) = coords (leftPlayer g)"
  "coords (rightPlayer (KeyboardCallback k a g)) = coords (rightPlayer g)"
  by (cases k; cases a; simp add: KeyboardCallback_def PRESSED_def RELEASED_def setVerticalSpeed_def)+

lemma happen_in_place: "paddles_in_place g \<Longrightarrow> paddles_in_place (happen h g)"
proof (cases h)
  case (Frame e)
  then show "paddles_in_place g \<Longrightarrow> paddles_in_place (happen h g)"
    by (simp add: update_in_place)
next
  case (KeyEvent k a)
  then show "paddles_in_place g \<Longrightarrow> paddles_in_place (happen h g)"
    by (simp add: paddles_in_place_def KeyboardCallback_coords)
qed

lemma run_in_place: "paddles_in_place g \<Longrightarrow> paddles_in_place (run hs g)"
  by (induction hs arbitrary: g) (simp_all add: happen_in_place)

text \<open>Every state the program reaches has its paddles in place.\<close>

lemma reachable_in_place: "paddles_in_place (run hs (initial_Game rs))"
  by (rule run_in_place [OF initial_Game_in_place])

text \<open>
  Claim C2. On a collision with the right paddle \<^verbatim>\<open>Ball::update\<close> calls
  \<^verbatim>\<open>bounce\<close> and negates the horizontal speed it gets; on a collision with the left
  paddle it calls \<^verbatim>\<open>bounce\<close> and keeps that speed. The horizontal speed of
  \<^verbatim>\<open>bounce\<close> is always \<^verbatim>\<open>MAX_BALL_SPEED\<close>, a positive value. So, after the whole
  update: with a right-paddle collision the horizontal speed is the negation of the
  value of \<^verbatim>\<open>bounce\<close>, and with a left-paddle collision, the paddles being in place
  (which excludes a collision with both at once), it is the value of \<^verbatim>\<open>bounce\<close>.
\<close>

theorem Ball_update_paddle_xSpeed:
  "(intersects (getCoords (rightPlayer g)) r \<longrightarrow>
      xSpeed (ball (update_hit_right r g)) = - fst (bounce (ball g) (rightPlayer g)))
   \<and> (intersects (getCoords (leftPlayer g)) r \<longrightarrow>
      xSpeed (ball (update_hit_left r g)) = fst (bounce (ball g) (leftPlayer g)))
   \<and> fst (bounce b p) = MAX_BALL_SPEED \<and> 0 < fst (bounce b p)
   \<and> (let s = before_paddles elapsed g in
        (intersects (getCoords (rightPlayer s)) (make_ballRect s) \<longrightarrow>
           xSpeed (ball (Ball_update elapsed g)) = - fst (bounce (ball s) (rightPlayer s)))
        \<and> (paddles_in_place g \<and> intersects (getCoords (leftPlayer s)) (make_ballRect s) \<longrightarrow>
           xSpeed (ball (Ball_update elapsed g)) = fst (bounce (ball s) (leftPlayer s))))"
  using Ball_update_hit_right [of elapsed g] Ball_update_hit_left [of g elapsed]
  by (simp add: update_hit_right_xSpeed update_hit_left_xSpeed bounce_fst Let_def)
    (simp add: MAX_BALL_SPEED_def)

theorem Ball_update_paddle_xSpeed_witness:
  "paddles_in_place hit_left_Game
   \<and> intersects (getCoords (leftPlayer (before_paddles (1/100) hit_left_Game)))
         (make_ballRect (before_paddles (1/100) hit_left_Game))
   \<and> xSpeed (ball (Ball_update (1/100) hit_left_Game)) = 200
   \<and> intersects (getCoords (rightPlayer (before_paddles (1/100) hit_right_Game)))
         (make_ballRect (before_paddles (1/100) hit_right_Game))
   \<and> xSpeed (ball (Ball_update (1/100) hit_right_Game)) = - 200"
proof -
  let ?l = "before_paddles (1/100) hit_left_Game" and ?r = "before_paddles (1/100) hit_right_Game"
  have p: "paddles_in_place hit_left_Game"
    by (simp add: paddles_in_place_def hit_left_Game_def new_Players_in_place)
  have "ball ?l = \<lparr>ball_x = 20, ball_y = 198, xSpeed = - 200, ySpeed = - 200\<rparr>"
    "getCoords (leftPlayer ?l) = \<lparr>rect_x = 10, rect_y = 190, width = 15, height = 100\<rparr>"
    by (simp_all add: before_paddles_def update_wall_def update_score_left_def
        update_score_right_def update_move_def hit_left_Game_def new_Player_def getCoords_def
        constants)
  then have l: "intersects (getCoords (leftPlayer ?l)) (make_ballRect ?l)"
    by (simp add: make_ballRect_def intersects_cases contains_iff constants)
  have "ball ?r = \<lparr>ball_x = 610, ball_y = 198, xSpeed = 200, ySpeed = - 200\<rparr>"
    "getCoords (rightPlayer ?r) = \<lparr>rect_x = 615, rect_y = 190, width = 15, height = 100\<rparr>"
    by (simp_all add: before_paddles_def update_wall_def update_score_left_def
        update_score_right_def update_move_def hit_right_Game_def new_Player_def getCoords_def
        constants)
  then have r: "intersects (getCoords (rightPlayer ?r)) (make_ballRect ?r)"
    by (simp add: make_ballRect_def intersects_cases contains_iff constants)
  from p l r Ball_update_paddle_xSpeed [where elapsed = "1/100" and g = hit_left_Game]
    Ball_update_paddle_xSpeed [where elapsed = "1/100" and g = hit_right_Game]
  show ?thesis
    by (simp add: Let_def MAX_BALL_SPEED_def)
qed

subsection \<open>The wall\<close>

lemma bounce_snd_sgn: "sgn (snd (bounce b p)) = (if ySpeed b < 0 then - 1 else 1)"
  using speedScale_bounds(3) [of b p]
  by (simp add: bounce_def Let_def copysignf_def sgn_real_def MAX_BALL_SPEED_def)

lemma update_hit_left_ySpeed_sgn:
  "ySpeed (ball g) \<noteq> 0 \<Longrightarrow> sgn (ySpeed (ball (update_hit_left r g))) = sgn (ySpeed (ball g))"
  by (simp add: update_hit_left_def case_prod_beta bounce_snd_sgn)

lemma update_hit_right_ySpeed_sgn:
  "ySpeed (ball g) \<noteq> 0 \<Longrightarrow> sgn (ySpeed (ball (update_hit_right r g))) = sgn (ySpeed (ball g))"
  by (simp add: update_hit_right_def case_prod_beta bounce_snd_sgn)

lemma Ball_update_ySpeed_sgn:
  assumes "ySpeed (ball (before_paddles e g)) \<noteq> 0"
  shows "sgn (ySpeed (ball (Ball_update e g))) = sgn (ySpeed (ball (before_paddles e g)))"
proof -
  let ?s = "before_paddles e g"
  let ?s' = "update_hit_left (make_ballRect ?s) ?s"
  have 1: "sgn (ySpeed (ball ?s')) = sgn (ySpeed (ball ?s))"
    using assms by (rule update_hit_left_ySpeed_sgn)
  with assms have "ySpeed (ball ?s') \<noteq> 0"
    by (metis sgn_zero_iff)
  then have "sgn (ySpeed (ball (update_hit_right (make_ballRect ?s) ?s'))) = sgn (ySpeed (ball ?s'))"
    by (rule update_hit_right_ySpeed_sgn)
  with 1 show ?thesis
    by (simp add: Ball_update_before_paddles)
qed

lemma before_paddles_no_score:
  assumes "0 \<le> ball_x (ball g) + xSpeed (ball g) * e"
    and "ball_x (ball g) + xSpeed (ball g) * e \<le> real_of_int SCREEN_WIDTH - BALL_SIZE"
  shows "before_paddles e g = update_wall (update_move e g)"
proof -
  have "\<not> ball_x (ball (update_move e g)) < 0"
    "\<not> ball_x (ball (update_move e g)) > real_of_int SCREEN_WIDTH - BALL_SIZE"
    using assms by (simp_all add: update_move_frame)
  then show ?thesis
    by (simp add: before_paddles_def update_score_right_idle update_score_left_idle)
qed

text \<open>
  Claim C4. The wall step of \<^verbatim>\<open>Ball::update\<close> negates the vertical speed exactly when
  the ball's \<open>y\<close> at that step is below 0 or above \<^verbatim>\<open>SCREEN_HEIGHT - BALL_SIZE\<close>;
  otherwise it keeps it. The step changes nothing else: not the horizontal speed, not the
  position, not the players, and it draws no random number. For the whole update, when
  no point is scored in the call, the \<open>y\<close> at that step is the advanced position, and
  the sign of a non-zero vertical speed after the call is the opposite of the sign before
  exactly when the advanced \<open>y\<close> is outside that interval (a paddle bounce keeps the sign).
  When a point is scored in the call, the \<open>y\<close> at the wall step is the one \<^verbatim>\<open>reset\<close>
  has just assigned.
\<close>

theorem Ball_update_wall_bounce:
  "xSpeed (ball (update_wall g)) = xSpeed (ball g)
   \<and> ySpeed (ball (update_wall g)) =
       (if ball_y (ball g) < 0 \<or> ball_y (ball g) > real_of_int SCREEN_HEIGHT - BALL_SIZE
        then - ySpeed (ball g) else ySpeed (ball g))
   \<and> ball_x (ball (update_wall g)) = ball_x (ball g)
   \<and> ball_y (ball (update_wall g)) = ball_y (ball g)
   \<and> leftPlayer (update_wall g) = leftPlayer g
   \<and> rightPlayer (update_wall g) = rightPlayer g
   \<and> rand_next (update_wall g) = rand_next g
   \<and> (0 \<le> ball_x (ball g) + xSpeed (ball g) * elapsed
        \<and> ball_x (ball g) + xSpeed (ball g) * elapsed \<le> real_of_int SCREEN_WIDTH - BALL_SIZE
        \<longrightarrow>
          before_paddles elapsed g = update_wall (update_move elapsed g)
          \<and> xSpeed (ball (before_paddles elapsed g)) = xSpeed (ball g)
          \<and> ySpeed (ball (before_paddles elapsed g)) =
              (if ball_y (ball g) + ySpeed (ball g) * elapsed < 0
                  \<or> ball_y (ball g) + ySpeed (ball g) * elapsed > real_of_int SCREEN_HEIGHT - BALL_SIZE
               then - ySpeed (ball g) else ySpeed (ball g))
          \<and> (ySpeed (ball g) \<noteq> 0 \<longrightarrow>
               sgn (ySpeed (ball (Ball_update elapsed g))) =
                 (if ball_y (ball g) + ySpeed (ball g) * elapsed < 0
                     \<or> ball_y (ball g) + ySpeed (ball g) * elapsed > real_of_int SCREEN_HEIGHT - BALL_SIZE
                  then - sgn (ySpeed (ball g)) else sgn (ySpeed (ball g)))))"
proof (intro conjI impI)
  show "xSpeed (ball (update_wall g)) = xSpeed (ball g)"
    "ySpeed (ball (update_wall g)) =
       (if ball_y (ball g) < 0 \<or> ball_y (ball g) > real_of_int SCREEN_HEIGHT - BALL_SIZE
        then - ySpeed (ball g) else ySpeed (ball g))"
    by (simp_all add: update_wall_velocity)
  show "ball_x (ball (update_wall g)) = ball_x (ball g)"
    "ball_y (ball (update_wall g)) = ball_y (ball g)"
    "leftPlayer (update_wall g) = leftPlayer g"
    "rightPlayer (update_wall g) = rightPlayer g"
    "rand_next (update_wall g) = rand_next g"
    by (simp_all add: update_wall_frame)
next
  assume "0 \<le> ball_x (ball g) + xSpeed (ball g) * elapsed
        \<and> ball_x (ball g) + xSpeed (ball g) * elapsed \<le> real_of_int SCREEN_WIDTH - BALL_SIZE"
  then show b: "before_paddles elapsed g = update_wall (update_move elapsed g)"
    by (simp add: before_paddles_no_score)
  show x: "xSpeed (ball (before_paddles elapsed g)) = xSpeed (ball g)"
    unfolding b by (simp add: update_wall_velocity update_move_velocity)
  show y: "ySpeed (ball (before_paddles elapsed g)) =
              (if ball_y (ball g) + ySpeed (ball g) * elapsed < 0
                  \<or> ball_y (ball g) + ySpeed (ball g) * elapsed > real_of_int SCREEN_HEIGHT - BALL_SIZE
               then - ySpeed (ball g) else ySpeed (ball g))"
    unfolding b by (simp add: update_wall_velocity update_move_velocity update_move_frame)
  assume nz: "ySpeed (ball g) \<noteq> 0"
  with y have "ySpeed (ball (before_paddles elapsed g)) \<noteq> 0"
    by simp
  from Ball_update_ySpeed_sgn [OF this]
  show "sgn (ySpeed (ball (Ball_update elapsed g))) =
                 (if ball_y (ball g) + ySpeed (ball g) * elapsed < 0
                     \<or> ball_y (ball g) + ySpeed (ball g) * elapsed > real_of_int SCREEN_HEIGHT - BALL_SIZE
                  then - sgn (ySpeed (ball g)) else sgn (ySpeed (ball g)))"
    unfolding y by (simp add: sgn_real_def)
qed

theorem Ball_update_wall_bounce_witness:
  "0 \<le> ball_x (ball wall_Game) + xSpeed (ball wall_Game) * (1/100)
   \<and> ball_x (ball wall_Game) + xSpeed (ball wall_Game) * (1/100) \<le> real_of_int SCREEN_WIDTH - BALL_SIZE
   \<and> ball_y (ball wall_Game) + ySpeed (ball wall_Game) * (1/100) < 0
   \<and> ySpeed (ball wall_Game) = - 200
   \<and> xSpeed (ball (before_paddles (1/100) wall_Game)) = 200
   \<and> ySpeed (ball (before_paddles (1/100) wall_Game)) = 200
   \<and> sgn (ySpeed (ball (Ball_update (1/100) wall_Game))) = 1"
proof -
  have h: "0 \<le> ball_x (ball wall_Game) + xSpeed (ball wall_Game) * (1/100)
     \<and> ball_x (ball wall_Game) + xSpeed (ball wall_Game) * (1/100) \<le> real_of_int SCREEN_WIDTH - BALL_SIZE"
    and y: "ball_y (ball wall_Game) + ySpeed (ball wall_Game) * (1/100) < 0"
    and v: "ySpeed (ball wall_Game) = - 200" "xSpeed (ball wall_Game) = 200"
    by (simp_all add: wall_Game_def constants)
  from v have nz: "ySpeed (ball wall_Game) \<noteq> 0"
    by simp
  from Ball_update_wall_bounce [of wall_Game "1/100"] h
  have "xSpeed (ball (before_paddles (1/100) wall_Game)) = xSpeed (ball wall_Game)"
    and "ySpeed (ball (before_paddles (1/100) wall_Game)) =
              (if ball_y (ball wall_Game) + ySpeed (ball wall_Game) * (1/100) < 0
                  \<or> ball_y (ball wall_Game) + ySpeed (ball wall_Game) * (1/100) > real_of_int SCREEN_HEIGHT - BALL_SIZE
               then - ySpeed (ball wall_Game) else ySpeed (ball wall_Game))"
    and "ySpeed (ball wall_Game) \<noteq> 0 \<longrightarrow>
               sgn (ySpeed (ball (Ball_update (1/100) wall_Game))) =
                 (if ball_y (ball wall_Game) + ySpeed (ball wall_Game) * (1/100) < 0
                     \<or> ball_y (ball wall_Game) + ySpeed (ball wall_Game) * (1/100) > real_of_int SCREEN_HEIGHT - BALL_SIZE
                  then - sgn (ySpeed (ball wall_Game)) else sgn (ySpeed (ball wall_Game)))"
    by blast+
  with h y v nz show ?thesis
    by simp
qed

subsection \<open>Pause\<close>

lemma update_paused: "paused g \<Longrightarrow> update e g = g"
  by (simp add: update_def)

lemma KeyboardCallback_ball: "ball (KeyboardCallback k a g) = ball g"
  by (cases k; cases a; simp add: KeyboardCallback_def PRESSED_def RELEASED_def)

lemma KeyboardCallback_score:
  "score (leftPlayer (KeyboardCallback k a g)) = score (leftPlayer g)"
  "score (rightPlayer (KeyboardCallback k a g)) = score (rightPlayer g)"
  by (cases k; cases a; simp add: KeyboardCallback_def PRESSED_def RELEASED_def setVerticalSpeed_def)+

lemma KeyboardCallback_paused:
  "paused (KeyboardCallback k a g) = (if PRESSED k a GLFW_KEY_SPACE then \<not> paused g else paused g)"
  by (cases k; cases a; simp add: KeyboardCallback_def PRESSED_def RELEASED_def)

text \<open>What a paused game keeps: the ball, and the place and score of each paddle.\<close>

lemma happen_paused:
  assumes "paused g" "\<not> space_pressed h"
  shows "paused (happen h g) \<and> ball (happen h g) = ball g
         \<and> coords (leftPlayer (happen h g)) = coords (leftPlayer g)
         \<and> coords (rightPlayer (happen h g)) = coords (rightPlayer g)
         \<and> score (leftPlayer (happen h g)) = score (leftPlayer g)
         \<and> score (rightPlayer (happen h g)) = score (rightPlayer g)"
proof (cases h)
  case (Frame e)
  with assms show ?thesis by (simp add: update_paused)
next
  case (KeyEvent k a)
  with assms show ?thesis
    by (simp add: KeyboardCallback_paused KeyboardCallback_ball KeyboardCallback_score
        KeyboardCallback_coords)
qed

lemma run_paused:
  assumes "paused g" "\<not> list_ex space_pressed hs"
  shows "paused (run hs g) \<and> ball (run hs g) = ball g
         \<and> coords (leftPlayer (run hs g)) = coords (leftPlayer g)
         \<and> coords (rightPlayer (run hs g)) = coords (rightPlayer g)
         \<and> score (leftPlayer (run hs g)) = score (leftPlayer g)
         \<and> score (rightPlayer (run hs g)) = score (rightPlayer g)"
  using assms
proof (induction hs arbitrary: g)
  case Nil
  then show ?case by simp
next
  case (Cons h hs)
  from Cons.prems have h: "\<not> space_pressed h" and hs: "\<not> list_ex space_pressed hs"
    by simp_all
  note 1 = happen_paused [OF Cons.prems(1) h]
  from 1 have "paused (happen h g)" by simp
  from Cons.IH [OF this hs] 1 show ?case by simp
qed

lemma initial_Game_paused: "paused (initial_Game rs)"
  by (simp add: initial_Game_def Ball_reset_frame)

text \<open>
  Claim C9. The game starts paused. While the pause flag is set, the top-level
  \<^verbatim>\<open>update\<close> returns the state as it is, for every elapsed time: the ball's position
  and velocity and both players' positions and scores are unchanged. So from the start,
  through any frames and key events without a press of the space bar, the game stays
  paused and the ball, the paddles' places and the scores stay as they started; a press
  of the space bar inverts the flag.
\<close>

theorem update_while_paused:
  "paused (initial_Game rs)
   \<and> (paused g \<longrightarrow> update elapsed g = g)
   \<and> (\<not> list_ex space_pressed hs \<longrightarrow>
        paused (run hs (initial_Game rs))
        \<and> ball (run hs (initial_Game rs)) = ball (initial_Game rs)
        \<and> coords (leftPlayer (run hs (initial_Game rs))) = coords (leftPlayer (initial_Game rs))
        \<and> coords (rightPlayer (run hs (initial_Game rs))) = coords (rightPlayer (initial_Game rs))
        \<and> score (leftPlayer (run hs (initial_Game rs))) = score (leftPlayer (initial_Game rs))
        \<and> score (rightPlayer (run hs (initial_Game rs))) = score (rightPlayer (initial_Game rs)))
   \<and> paused (KeyboardCallback GLFW_KEY_SPACE GLFW_PRESS g) = (\<not> paused g)"
  using run_paused [OF initial_Game_paused, of hs rs]
  by (simp add: initial_Game_paused update_paused KeyboardCallback_paused PRESSED_def)

theorem update_while_paused_witness:
  "paused (initial_Game (\<lambda>n. 0))
   \<and> update 1 (initial_Game (\<lambda>n. 0)) = initial_Game (\<lambda>n. 0)
   \<and> \<not> list_ex space_pressed [Frame 1, KeyEvent GLFW_KEY_S GLFW_PRESS, Frame 1]
   \<and> paused (run [Frame 1, KeyEvent GLFW_KEY_S GLFW_PRESS, Frame 1] (initial_Game (\<lambda>n. 0)))
   \<and> ball (run [Frame 1, KeyEvent GLFW_KEY_S GLFW_PRESS, Frame 1] (initial_Game (\<lambda>n. 0)))
       = ball (initial_Game (\<lambda>n. 0))
   \<and> coords (leftPlayer (run [Frame 1, KeyEvent GLFW_KEY_S GLFW_PRESS, Frame 1] (initial_Game (\<lambda>n. 0))))
       = coords (leftPlayer (initial_Game (\<lambda>n. 0)))"
proof -
  have n: "\<not> list_ex space_pressed [Frame 1, KeyEvent GLFW_KEY_S GLFW_PRESS, Frame 1]"
    by (simp add: PRESSED_def)
  note T = update_while_paused [of "\<lambda>n. 0" "initial_Game (\<lambda>n. 0)" 1
      "[Frame 1, KeyEvent GLFW_KEY_S GLFW_PRESS, Frame 1]"]
  from T have p: "paused (initial_Game (\<lambda>n. 0))" by blast
  with T have u: "update 1 (initial_Game (\<lambda>n. 0)) = initial_Game (\<lambda>n. 0)" by blast
  from T n p u show ?thesis by blast
qed

subsection \<open>Drawing\<close>

lemma drawRectangles_mismatch:
  "length rects \<noteq> length colors \<Longrightarrow>
     drawRectangles ndebug rects colors =
       debugPrint ndebug
         ''drawRectangles: mismatch between size of rectangles vector and colors vector.''
       @ [Exit 1]"
  by (simp add: drawRectangles_def)

text \<open>With lists of equal length the function draws and returns.\<close>

lemma drawRectangles_draws:
  "length rects = length colors \<Longrightarrow>
     map is_drawing (drawRectangles ndebug rects colors) = [True, True, False, True]
     \<and> last (drawRectangles ndebug rects colors) = GlDrawArrays 0 (15 * length rects)"
  by (simp add: drawRectangles_def Let_def NUM_QUAD_ELEMENTS_def)

text \<open>
  Claim C7, as amended. With lists of unequal lengths \<^verbatim>\<open>drawRectangles\<close> exits with
  status 1 and does nothing that builds vertex data or draws: no array is allocated, no
  buffer is filled, no draw call is made. In a build without \<^verbatim>\<open>NDEBUG\<close> it logs one
  diagnostic line before it exits; in a build with \<^verbatim>\<open>NDEBUG\<close> it logs nothing.
\<close>

theorem drawRectangles_mismatch_exits:
  "length rects \<noteq> length colors \<longrightarrow>
     drawRectangles ndebug rects colors =
       (if ndebug then [Exit 1]
        else [DebugPrint ''drawRectangles: mismatch between size of rectangles vector and colors vector.'',
              Exit 1])
     \<and> filter is_drawing (drawRectangles ndebug rects colors) = []
     \<and> last (drawRectangles ndebug rects colors) = Exit 1
     \<and> (filter is_log (drawRectangles ndebug rects colors) = []) = ndebug"
  by (simp add: drawRectangles_mismatch debugPrint_def)

theorem drawRectangles_mismatch_exits_witness:
  "length [\<lparr>rect_x = 0, rect_y = 0, width = 15, height = 15\<rparr>] \<noteq> length ([] :: Color list)
   \<and> drawRectangles False [\<lparr>rect_x = 0, rect_y = 0, width = 15, height = 15\<rparr>] [] =
       [DebugPrint ''drawRectangles: mismatch between size of rectangles vector and colors vector.'',
        Exit 1]
   \<and> filter is_drawing (drawRectangles False [\<lparr>rect_x = 0, rect_y = 0, width = 15, height = 15\<rparr>] []) = []"
  using drawRectangles_mismatch_exits
    [of "[\<lparr>rect_x = 0, rect_y = 0, width = 15, height = 15\<rparr>]" "[]" False]
  by simp

text \<open>
  The claim as it was stated fails in a build with \<^verbatim>\<open>NDEBUG\<close>: the lists differ in
  length and the process exits, but no diagnostic is logged.
\<close>

theorem drawRectangles_no_log_counterexample:
  "length [\<lparr>rect_x = 0, rect_y = 0, width = 15, height = 15\<rparr>] \<noteq> length ([] :: Color list)
   \<and> drawRectangles True [\<lparr>rect_x = 0, rect_y = 0, width = 15, height = 15\<rparr>] [] = [Exit 1]
   \<and> filter is_log (drawRectangles True [\<lparr>rect_x = 0, rect_y = 0, width = 15, height = 15\<rparr>] []) = []"
  by (simp add: drawRectangles_def debugPrint_def)

end
